theory Spec2Isabelle
  imports Main "HOL-Library.Multiset" "HOL-Library.Sublist" "HOL-Library.Word"
begin

section \<open>Data model\<close>

text \<open>
  A JavaScript \<^verbatim>\<open>Error\<close> is its message. Every \<^verbatim>\<open>throw new Error(...)\<close> of the
  client and every rejected promise of the provider library is a value \<open>Error msg\<close>
  on the left of a sum.
\<close>

datatype error = Error (message: string)

text \<open>
  A repository as the provider's JSON carries it. The fields the client reads with a
  default (\<^verbatim>\<open>repo.archived || false\<close>, \<^verbatim>\<open>data.topics || []\<close>) and the nullable or
  detail-only fields are optional; \<open>None\<close> is JavaScript's \<^verbatim>\<open>undefined\<close>/\<^verbatim>\<open>null\<close>.
\<close>

record raw_repo =
  raw_id :: nat
  raw_name :: string
  raw_full_name :: string
  raw_description :: "string option"
  raw_private :: bool
  raw_fork :: bool
  raw_language :: "string option"
  raw_stargazers_count :: nat
  raw_forks_count :: nat
  raw_updated_at :: string
  raw_created_at :: string
  raw_html_url :: string
  raw_clone_url :: string
  raw_archived :: "bool option"
  raw_default_branch :: "string option"
  raw_size :: "nat option"
  raw_open_issues_count :: "nat option"
  raw_topics :: "string list option"

text \<open>
  The object literal that \<^verbatim>\<open>listRepositories\<close> and \<^verbatim>\<open>searchRepositories\<close> build for
  each repository (github-client.js). The JavaScript keys \<^verbatim>\<open>id\<close> and \<^verbatim>\<open>private\<close> are
  \<open>repo_id\<close> and \<open>isPrivate\<close> here.
\<close>

record repo =
  repo_id :: nat
  name :: string
  full_name :: string
  description :: "string option"
  isPrivate :: bool
  fork :: bool
  language :: "string option"
  stargazers_count :: nat
  forks_count :: nat
  updated_at :: string
  created_at :: string
  html_url :: string
  clone_url :: string
  archived :: bool

text \<open>The object literal of \<^verbatim>\<open>getRepository\<close>: the same keys and four detail keys.\<close>

record repo_details = repo +
  default_branch :: "string option"
  size_kb :: "nat option"
  open_issues_count :: "nat option"
  topics :: "string list"

text \<open>
  A JavaScript string is a sequence of UTF-16 code units. Text that the user types (a
  search query) and the string parameters of a request are such sequences; \<open>js\<close> is
  the string of a literal of the source, character by character.
\<close>

type_synonym jstring = "16 word list"

definition js :: "string \<Rightarrow> jstring" where
  "js s = map of_char s"

text \<open>Request parameters are JavaScript objects: maps from key to value.\<close>

datatype param = N nat | S jstring | B bool

type_synonym params = "string \<rightharpoonup> param"

record contributor =
  contributor_login :: string
  contributions :: nat

record commit =
  sha :: string
  commit_message :: string
  commit_date :: string

section \<open>The provider library\<close>

text \<open>
  The requests the client issues through \<^verbatim>\<open>this.octokit\<close>. The client state keeps a
  log of them, each with whether it was answered (\<open>True\<close>) or rejected.
\<close>

datatype api_call =
    GetAuthenticated
  | ListForAuthenticatedUser params
  | SearchRepos params
  | ReposGet string string
  | ReposDelete string string
  | ReposUpdate string string params
  | ListContributors string string
  | ListLanguages string string
  | ListCommits string string params

text \<open>
  The provider library (\<^verbatim>\<open>@octokit/rest\<close>) is not part of the repository: it is a
  parameter. Each endpoint takes the provider's state \<open>'p\<close> and answers with the
  response's \<^verbatim>\<open>data\<close> or rejects with an error, and leaves the provider in a new state.
\<close>

record 'p octokit =
  users_getAuthenticated :: "'p \<Rightarrow> (error + string) \<times> 'p"
  repos_listForAuthenticatedUser :: "params \<Rightarrow> 'p \<Rightarrow> (error + raw_repo list) \<times> 'p"
  search_repos :: "params \<Rightarrow> 'p \<Rightarrow> (error + raw_repo list) \<times> 'p"
  repos_get :: "string \<Rightarrow> string \<Rightarrow> 'p \<Rightarrow> (error + raw_repo) \<times> 'p"
  repos_delete :: "string \<Rightarrow> string \<Rightarrow> 'p \<Rightarrow> (error + unit) \<times> 'p"
  repos_update :: "string \<Rightarrow> string \<Rightarrow> params \<Rightarrow> 'p \<Rightarrow> (error + raw_repo) \<times> 'p"
  repos_listContributors :: "string \<Rightarrow> string \<Rightarrow> 'p \<Rightarrow> (error + contributor list) \<times> 'p"
  repos_listLanguages :: "string \<Rightarrow> string \<Rightarrow> 'p \<Rightarrow> (error + (string \<times> nat) list) \<times> 'p"
  repos_listCommits :: "string \<Rightarrow> string \<Rightarrow> params \<Rightarrow> 'p \<Rightarrow> (error + commit list) \<times> 'p"

section \<open>The client (github-client.js)\<close>

text \<open>
  The state of a \<^verbatim>\<open>GitHubClient\<close>: \<^verbatim>\<open>this.username\<close> (from \<^verbatim>\<open>GITHUB_USERNAME\<close>, or
  \<open>None\<close>), the provider behind \<^verbatim>\<open>this.octokit\<close>, and the log of requests issued.
\<close>

record 'p client =
  username :: "string option"
  remote :: 'p
  requests :: "(api_call \<times> bool) list"

fun answered :: "'e + 'a \<Rightarrow> bool" where
  "answered (Inr _) = True"
| "answered (Inl _) = False"

text \<open>One awaited request: run the endpoint on the provider and log the call.\<close>

definition request ::
  "api_call \<Rightarrow> ('p \<Rightarrow> (error + 'a) \<times> 'p) \<Rightarrow> 'p client \<Rightarrow> (error + 'a) \<times> 'p client" where
  "request call endpoint c =
     (case endpoint (remote c) of
        (out, p') \<Rightarrow> (out, c\<lparr>remote := p', requests := requests c @ [(call, answered out)]\<rparr>))"

text \<open>JavaScript truthiness of a string that may be undefined: defined and non-empty.\<close>

fun truthy :: "'a list option \<Rightarrow> bool" where
  "truthy None = False"
| "truthy (Some s) = (s \<noteq> [])"

text \<open>
  \<^verbatim>\<open>getUsername\<close>, github-client.js: \<^verbatim>\<open>if (this.username) return this.username\<close>, else
  one request to the authenticated-identity endpoint, whose login is stored in
  \<^verbatim>\<open>this.username\<close>; a rejection is rethrown with a prefix and stores nothing.
\<close>

definition getUsername :: "'p octokit \<Rightarrow> 'p client \<Rightarrow> (error + string) \<times> 'p client" where
  "getUsername oct c =
     (case (if truthy (username c) then username c else None) of
        Some u \<Rightarrow> (Inr u, c)
      | None \<Rightarrow>
          (case request GetAuthenticated (users_getAuthenticated oct) c of
             (Inr login, c') \<Rightarrow> (Inr login, c'\<lparr>username := Some login\<rparr>)
           | (Inl e, c') \<Rightarrow> (Inl (Error (''Failed to get username: '' @ message e)), c')))"

text \<open>\<^verbatim>\<open>repo.archived || false\<close> and \<^verbatim>\<open>data.topics || []\<close>.\<close>

fun or_false :: "bool option \<Rightarrow> bool" where
  "or_false (Some b) = b"
| "or_false None = False"

fun or_empty :: "'a list option \<Rightarrow> 'a list" where
  "or_empty (Some xs) = xs"
| "or_empty None = []"

text \<open>The callback of \<^verbatim>\<open>repos.map\<close> in \<^verbatim>\<open>listRepositories\<close> and \<^verbatim>\<open>searchRepositories\<close>.\<close>

definition normalizeRepo :: "raw_repo \<Rightarrow> repo" where
  "normalizeRepo r =
     \<lparr> repo_id = raw_id r,
       name = raw_name r,
       full_name = raw_full_name r,
       description = raw_description r,
       isPrivate = raw_private r,
       fork = raw_fork r,
       language = raw_language r,
       stargazers_count = raw_stargazers_count r,
       forks_count = raw_forks_count r,
       updated_at = raw_updated_at r,
       created_at = raw_created_at r,
       html_url = raw_html_url r,
       clone_url = raw_clone_url r,
       archived = or_false (raw_archived r) \<rparr>"

text \<open>
  The defaults of \<^verbatim>\<open>listRepositories\<close>; \<^verbatim>\<open>...options\<close> after them overrides key by key,
  which is \<open>++\<close> on maps.
\<close>

definition list_defaults :: params where
  "list_defaults =
     [''per_page'' \<mapsto> N 100, ''page'' \<mapsto> N 2, ''sort'' \<mapsto> S (js ''updated''),
      ''direction'' \<mapsto> S (js ''asc'')]"

definition listRepositories ::
  "'p octokit \<Rightarrow> params \<Rightarrow> 'p client \<Rightarrow> (error + repo list) \<times> 'p client" where
  "listRepositories oct options c =
     (let ps = list_defaults ++ options in
      case request (ListForAuthenticatedUser ps) (repos_listForAuthenticatedUser oct ps) c of
        (Inr repos, c') \<Rightarrow> (Inr (map normalizeRepo repos), c')
      | (Inl e, c') \<Rightarrow> (Inl (Error (''Failed to list repositories: '' @ message e)), c'))"

text \<open>The four filtered listings: each lists again and filters on the client.\<close>

definition listArchivedRepositories ::
  "'p octokit \<Rightarrow> 'p client \<Rightarrow> (error + repo list) \<times> 'p client" where
  "listArchivedRepositories oct c =
     (case listRepositories oct Map.empty c of
        (Inr repos, c') \<Rightarrow> (Inr (filter (\<lambda>repo. archived repo) repos), c')
      | (Inl e, c') \<Rightarrow>
          (Inl (Error (''Failed to list archived repositories: '' @ message e)), c'))"

definition listActiveRepositories ::
  "'p octokit \<Rightarrow> 'p client \<Rightarrow> (error + repo list) \<times> 'p client" where
  "listActiveRepositories oct c =
     (case listRepositories oct Map.empty c of
        (Inr repos, c') \<Rightarrow> (Inr (filter (\<lambda>repo. \<not> archived repo) repos), c')
      | (Inl e, c') \<Rightarrow>
          (Inl (Error (''Failed to list active repositories: '' @ message e)), c'))"

definition listPublicRepositories ::
  "'p octokit \<Rightarrow> 'p client \<Rightarrow> (error + repo list) \<times> 'p client" where
  "listPublicRepositories oct c =
     (case listRepositories oct Map.empty c of
        (Inr repos, c') \<Rightarrow> (Inr (filter (\<lambda>repo. \<not> isPrivate repo) repos), c')
      | (Inl e, c') \<Rightarrow>
          (Inl (Error (''Failed to list active repositories: '' @ message e)), c'))"

definition listPrivateRepositories ::
  "'p octokit \<Rightarrow> 'p client \<Rightarrow> (error + repo list) \<times> 'p client" where
  "listPrivateRepositories oct c =
     (case listRepositories oct Map.empty c of
        (Inr repos, c') \<Rightarrow> (Inr (filter (\<lambda>repo. isPrivate repo) repos), c')
      | (Inl e, c') \<Rightarrow>
          (Inl (Error (''Failed to list active repositories: '' @ message e)), c'))"

text \<open>
  \<^verbatim>\<open>searchRepositories\<close>: the username first, then one search request whose \<^verbatim>\<open>q\<close> is
  the query followed by \<^verbatim>\<open> user:<username>\<close>. The endpoint answers \<^verbatim>\<open>data.items\<close>.
  The query is not inspected.
\<close>

definition search_defaults :: "jstring \<Rightarrow> string \<Rightarrow> params" where
  "search_defaults query uname =
     [''q'' \<mapsto> S (query @ js ('' user:'' @ uname)), ''per_page'' \<mapsto> N 100,
      ''sort'' \<mapsto> S (js ''updated'')]"

definition searchRepositories ::
  "'p octokit \<Rightarrow> jstring \<Rightarrow> params \<Rightarrow> 'p client \<Rightarrow> (error + repo list) \<times> 'p client" where
  "searchRepositories oct query options c =
     (case getUsername oct c of
        (Inl e, c1) \<Rightarrow> (Inl (Error (''Failed to search repositories: '' @ message e)), c1)
      | (Inr uname, c1) \<Rightarrow>
          (let ps = search_defaults query uname ++ options in
           case request (SearchRepos ps) (search_repos oct ps) c1 of
             (Inr items, c2) \<Rightarrow> (Inr (map normalizeRepo items), c2)
           | (Inl e, c2) \<Rightarrow>
               (Inl (Error (''Failed to search repositories: '' @ message e)), c2)))"

text \<open>\<^verbatim>\<open>getRepository\<close>: one request, and the object literal with the detail keys.\<close>

definition normalizeDetails :: "raw_repo \<Rightarrow> repo_details" where
  "normalizeDetails d =
     \<lparr> repo_id = raw_id d,
       name = raw_name d,
       full_name = raw_full_name d,
       description = raw_description d,
       isPrivate = raw_private d,
       fork = raw_fork d,
       language = raw_language d,
       stargazers_count = raw_stargazers_count d,
       forks_count = raw_forks_count d,
       updated_at = raw_updated_at d,
       created_at = raw_created_at d,
       html_url = raw_html_url d,
       clone_url = raw_clone_url d,
       archived = or_false (raw_archived d),
       default_branch = raw_default_branch d,
       size_kb = raw_size d,
       open_issues_count = raw_open_issues_count d,
       topics = or_empty (raw_topics d) \<rparr>"

definition getRepository ::
  "'p octokit \<Rightarrow> string \<Rightarrow> string \<Rightarrow> 'p client \<Rightarrow> (error + repo_details) \<times> 'p client" where
  "getRepository oct owner rname c =
     (case request (ReposGet owner rname) (repos_get oct owner rname) c of
        (Inr d, c') \<Rightarrow> (Inr (normalizeDetails d), c')
      | (Inl e, c') \<Rightarrow> (Inl (Error (''Failed to get repository: '' @ message e)), c'))"

definition deleteRepository ::
  "'p octokit \<Rightarrow> string \<Rightarrow> string \<Rightarrow> 'p client \<Rightarrow> (error + bool) \<times> 'p client" where
  "deleteRepository oct owner rname c =
     (case request (ReposDelete owner rname) (repos_delete oct owner rname) c of
        (Inr _, c') \<Rightarrow> (Inr True, c')
      | (Inl e, c') \<Rightarrow> (Inl (Error (''Failed to delete repository: '' @ message e)), c'))"

text \<open>
  \<^verbatim>\<open>getRepositoryStats\<close>: three requests, each with its own \<^verbatim>\<open>.catch\<close> that replaces a
  rejection by an empty \<^verbatim>\<open>data\<close>. \<^verbatim>\<open>Promise.all\<close> starts them in the order of the array;
  the model runs them in that order. \<^verbatim>\<open>commits.data[0] || null\<close> is \<open>None\<close> on an empty
  list.
\<close>

record repo_stats =
  contributors_count :: nat
  languages :: "(string \<times> nat) list"
  last_commit :: "commit option"

fun data_or_empty :: "error + 'a list \<Rightarrow> 'a list" where
  "data_or_empty (Inr d) = d"
| "data_or_empty (Inl _) = []"

fun first_or_null :: "'a list \<Rightarrow> 'a option" where
  "first_or_null [] = None"
| "first_or_null (x # _) = Some x"

definition getRepositoryStats ::
  "'p octokit \<Rightarrow> string \<Rightarrow> string \<Rightarrow> 'p client \<Rightarrow> (error + repo_stats) \<times> 'p client" where
  "getRepositoryStats oct owner rname c =
     (case request (ListContributors owner rname) (repos_listContributors oct owner rname) c of
        (contributors, c1) \<Rightarrow>
     (case request (ListLanguages owner rname) (repos_listLanguages oct owner rname) c1 of
        (langs, c2) \<Rightarrow>
     (case request (ListCommits owner rname [''per_page'' \<mapsto> N 1])
             (repos_listCommits oct owner rname [''per_page'' \<mapsto> N 1]) c2 of
        (commits, c3) \<Rightarrow>
          (Inr \<lparr> contributors_count = length (data_or_empty contributors),
                 languages = data_or_empty langs,
                 last_commit = first_or_null (data_or_empty commits) \<rparr>, c3))))"

text \<open>The three single-item updates and the objects they return.\<close>

record visibility_update =
  vis_id :: nat
  vis_name :: string
  vis_full_name :: string
  vis_private :: bool
  vis_html_url :: string

record archive_update =
  arch_id :: nat
  arch_name :: string
  arch_full_name :: string
  arch_archived :: "bool option"
  arch_html_url :: string

definition updateRepositoryVisibility ::
  "'p octokit \<Rightarrow> string \<Rightarrow> string \<Rightarrow> bool \<Rightarrow> 'p client \<Rightarrow> (error + visibility_update) \<times> 'p client" where
  "updateRepositoryVisibility oct owner rname makePrivate c =
     (case request (ReposUpdate owner rname [''private'' \<mapsto> B makePrivate])
             (repos_update oct owner rname [''private'' \<mapsto> B makePrivate]) c of
        (Inr d, c') \<Rightarrow>
          (Inr \<lparr> vis_id = raw_id d, vis_name = raw_name d, vis_full_name = raw_full_name d,
                 vis_private = raw_private d, vis_html_url = raw_html_url d \<rparr>, c')
      | (Inl e, c') \<Rightarrow>
          (Inl (Error (''Failed to update repository visibility: '' @ message e)), c'))"

definition archiveRepository ::
  "'p octokit \<Rightarrow> string \<Rightarrow> string \<Rightarrow> 'p client \<Rightarrow> (error + archive_update) \<times> 'p client" where
  "archiveRepository oct owner rname c =
     (case request (ReposUpdate owner rname [''archived'' \<mapsto> B True])
             (repos_update oct owner rname [''archived'' \<mapsto> B True]) c of
        (Inr d, c') \<Rightarrow>
          (Inr \<lparr> arch_id = raw_id d, arch_name = raw_name d, arch_full_name = raw_full_name d,
                 arch_archived = raw_archived d, arch_html_url = raw_html_url d \<rparr>, c')
      | (Inl e, c') \<Rightarrow> (Inl (Error (''Failed to archive repository: '' @ message e)), c'))"

definition unarchiveRepository ::
  "'p octokit \<Rightarrow> string \<Rightarrow> string \<Rightarrow> 'p client \<Rightarrow> (error + archive_update) \<times> 'p client" where
  "unarchiveRepository oct owner rname c =
     (case request (ReposUpdate owner rname [''archived'' \<mapsto> B False])
             (repos_update oct owner rname [''archived'' \<mapsto> B False]) c of
        (Inr d, c') \<Rightarrow>
          (Inr \<lparr> arch_id = raw_id d, arch_name = raw_name d, arch_full_name = raw_full_name d,
                 arch_archived = raw_archived d, arch_html_url = raw_html_url d \<rparr>, c')
      | (Inl e, c') \<Rightarrow> (Inl (Error (''Failed to unarchive repository: '' @ message e)), c'))"

subsection \<open>The bulk runners\<close>

text \<open>
  The four bulk methods are the same loop around a different single-item call:
  \<^verbatim>\<open>for (const repo of repos) { try { ...; results.push(item) } catch (error) {
  errors.push({ name: repo.name, error: error.message }) } }\<close>.
  \<open>forEachTry\<close> is that loop; \<open>body\<close> is the \<^verbatim>\<open>try\<close> block, which yields the item it
  pushes or the error it throws.
\<close>

record bulk_error =
  err_name :: string
  err_error :: string

record 'x bulk_result =
  results :: "'x list"
  errors :: "bulk_error list"

fun forEachTry ::
  "(repo \<Rightarrow> 's \<Rightarrow> (error + 'x) \<times> 's) \<Rightarrow> repo list \<Rightarrow> 'x bulk_result \<Rightarrow> 's \<Rightarrow> 'x bulk_result \<times> 's" where
  "forEachTry body [] acc s = (acc, s)"
| "forEachTry body (repo # repos) acc s =
     (case body repo s of
        (Inr item, s') \<Rightarrow> forEachTry body repos (acc\<lparr>results := results acc @ [item]\<rparr>) s'
      | (Inl e, s') \<Rightarrow>
          forEachTry body repos
            (acc\<lparr>errors := errors acc @ [\<lparr>err_name = name repo, err_error = message e\<rparr>]\<rparr>) s')"

text \<open>The item pushed on success: \<^verbatim>\<open>{ ...result, success: true }\<close>.\<close>

record 'r succeeded =
  result :: 'r
  success :: bool

record deleted =
  deleted_name :: string
  deleted_success :: bool

fun pushed :: "('r \<Rightarrow> 'x) \<Rightarrow> (error + 'r) \<times> 's \<Rightarrow> (error + 'x) \<times> 's" where
  "pushed item (Inr r, s) = (Inr (item r), s)"
| "pushed item (Inl e, s) = (Inl e, s)"

definition bulkUpdateVisibility ::
  "'p octokit \<Rightarrow> string \<Rightarrow> repo list \<Rightarrow> bool \<Rightarrow> 'p client
     \<Rightarrow> visibility_update succeeded bulk_result \<times> 'p client" where
  "bulkUpdateVisibility oct owner repos makePrivate c =
     forEachTry
       (\<lambda>repo s. pushed (\<lambda>r. \<lparr>result = r, success = True\<rparr>)
                    (updateRepositoryVisibility oct owner (name repo) makePrivate s))
       repos \<lparr>results = [], errors = []\<rparr> c"

definition bulkArchiveRepositories ::
  "'p octokit \<Rightarrow> string \<Rightarrow> repo list \<Rightarrow> 'p client
     \<Rightarrow> archive_update succeeded bulk_result \<times> 'p client" where
  "bulkArchiveRepositories oct owner repos c =
     forEachTry
       (\<lambda>repo s. pushed (\<lambda>r. \<lparr>result = r, success = True\<rparr>)
                    (archiveRepository oct owner (name repo) s))
       repos \<lparr>results = [], errors = []\<rparr> c"

definition bulkUnarchiveRepositories ::
  "'p octokit \<Rightarrow> string \<Rightarrow> repo list \<Rightarrow> 'p client
     \<Rightarrow> archive_update succeeded bulk_result \<times> 'p client" where
  "bulkUnarchiveRepositories oct owner repos c =
     forEachTry
       (\<lambda>repo s. pushed (\<lambda>r. \<lparr>result = r, success = True\<rparr>)
                    (unarchiveRepository oct owner (name repo) s))
       repos \<lparr>results = [], errors = []\<rparr> c"

definition bulkDeleteRepositories ::
  "'p octokit \<Rightarrow> string \<Rightarrow> repo list \<Rightarrow> 'p client \<Rightarrow> deleted bulk_result \<times> 'p client" where
  "bulkDeleteRepositories oct owner repos c =
     forEachTry
       (\<lambda>repo s. pushed (\<lambda>_. \<lparr>deleted_name = name repo, deleted_success = True\<rparr>)
                    (deleteRepository oct owner (name repo) s))
       repos \<lparr>results = [], errors = []\<rparr> c"

section \<open>Prompts (utils.js)\<close>

text \<open>
  \<^verbatim>\<open>String.prototype.trim\<close> removes the white space and line terminator code points of
  ECMAScript from both ends: U+0009 to U+000D, U+0020, U+00A0, U+1680, U+2000 to U+200A,
  U+2028, U+2029, U+202F, U+205F, U+3000 and U+FEFF. Each is one code unit.
\<close>

definition isWhitespace :: "16 word \<Rightarrow> bool" where
  "isWhitespace u =
     (u \<in> set [0x0009, 0x000A, 0x000B, 0x000C, 0x000D, 0x0020, 0x00A0, 0x1680,
                0x2000, 0x2001, 0x2002, 0x2003, 0x2004, 0x2005, 0x2006, 0x2007, 0x2008,
                0x2009, 0x200A, 0x2028, 0x2029, 0x202F, 0x205F, 0x3000, 0xFEFF])"

definition trim :: "jstring \<Rightarrow> jstring" where
  "trim s = rev (dropWhile isWhitespace (rev (dropWhile isWhitespace s)))"

text \<open>
  The \<^verbatim>\<open>validate\<close> callback of the search prompt: the message on the left when the
  input is refused, \<^verbatim>\<open>true\<close> on the right.
\<close>

definition validateQuery :: "jstring \<Rightarrow> string + unit" where
  "validateQuery input =
     (if length (trim input) = 0 then Inl ''Search query cannot be empty'' else Inr ())"

text \<open>
  \<^verbatim>\<open>getSearchQuery\<close>: the prompt asks again until \<^verbatim>\<open>validate\<close> accepts an entry, and the
  accepted entry is returned trimmed. The argument is what the user types, entry after
  entry; \<open>None\<close> is a prompt that is still waiting after all of them.
\<close>

fun getSearchQuery :: "jstring list \<Rightarrow> jstring option" where
  "getSearchQuery [] = None"
| "getSearchQuery (input # later) =
     (case validateQuery input of
        Inr _ \<Rightarrow> Some (trim input)
      | Inl _ \<Rightarrow> getSearchQuery later)"

text \<open>
  \<^verbatim>\<open>selectMultipleRepositories\<close>: \<open>picked\<close> is the list of values the user ticks in the
  checkbox prompt.
\<close>

definition selectMultipleRepositories :: "repo list \<Rightarrow> string list \<Rightarrow> error + repo list" where
  "selectMultipleRepositories repos picked =
     (if length repos = 0 then Inl (Error ''No repositories available for selection.'')
      else if ''select-all'' \<in> set picked then Inr repos
      else if ''select-none'' \<in> set picked then Inr []
      else Inr (filter (\<lambda>repo. name repo \<in> set picked) repos))"

section \<open>The commands (commands.js)\<close>

text \<open>
  A command prints and returns nothing; the model returns the display that tells the
  path the command took: the error, warning or information message it ends on, or the
  results of the bulk run that it prints.
\<close>

datatype 'x shown =
    ShownError error
  | ShownWarning string
  | ShownInfo string
  | ShownBulkResults "'x bulk_result"

text \<open>
  The answers of the user to the prompts of the bulk-delete command: the checkbox of
  \<^verbatim>\<open>selectMultipleRepositories\<close>, \<^verbatim>\<open>confirmBulkAction\<close> and the final \<^verbatim>\<open>confirmAction\<close>.
  An answer is read only when the command reaches its prompt.
\<close>

record bulk_answers =
  picked :: "string list"
  confirm :: bool
  finalConfirm :: bool

text \<open>
  \<^verbatim>\<open>GitHubCommands.bulkDeleteRepositories\<close>. The test \<^verbatim>\<open>selectedRepos === 'back'\<close> is
  never true of the array that \<^verbatim>\<open>selectMultipleRepositories\<close> returns.
\<close>

definition cmd_bulkDeleteRepositories ::
  "'p octokit \<Rightarrow> bulk_answers \<Rightarrow> 'p client \<Rightarrow> deleted shown \<times> 'p client" where
  "cmd_bulkDeleteRepositories oct answers c =
     (case listRepositories oct Map.empty c of
        (Inl e, c1) \<Rightarrow> (ShownError e, c1)
      | (Inr repos, c1) \<Rightarrow>
          if length repos = 0 then (ShownWarning ''No repositories found.'', c1)
          else
            (case selectMultipleRepositories repos (picked answers) of
               Inl e \<Rightarrow> (ShownError e, c1)
             | Inr selectedRepos \<Rightarrow>
                 if length selectedRepos = 0 then (ShownInfo ''No repositories selected.'', c1)
                 else if \<not> confirm answers then (ShownInfo ''Bulk deletion cancelled.'', c1)
                 else if \<not> finalConfirm answers
                   then (ShownInfo ''Bulk deletion cancelled at final confirmation.'', c1)
                 else
                   (case getUsername oct c1 of
                      (Inl e, c2) \<Rightarrow> (ShownError e, c2)
                    | (Inr uname, c2) \<Rightarrow>
                        (case bulkDeleteRepositories oct uname selectedRepos c2 of
                           (res, c3) \<Rightarrow> (ShownBulkResults res, c3)))))"

text \<open>
  \<^verbatim>\<open>GitHubCommands.searchRepositories\<close>: the prompt, then the client's search with the
  trimmed query; an error is displayed and thrown again. \<open>None\<close> while the prompt waits.
\<close>

definition cmd_searchRepositories ::
  "'p octokit \<Rightarrow> jstring list \<Rightarrow> 'p client \<Rightarrow> ((error + repo list) \<times> 'p client) option" where
  "cmd_searchRepositories oct typed c =
     (case getSearchQuery typed of
        None \<Rightarrow> None
      | Some query \<Rightarrow> Some (searchRepositories oct query Map.empty c))"

text \<open>
  The \<^verbatim>\<open>search\<close> case of the command line (index.js): a truthy first argument goes to
  the client as it is, otherwise the command prompts.
\<close>

definition cli_search ::
  "'p octokit \<Rightarrow> jstring option \<Rightarrow> jstring list \<Rightarrow> 'p client
     \<Rightarrow> ((error + repo list) \<times> 'p client) option" where
  "cli_search oct arg typed c =
     (case (if truthy arg then arg else None) of
        Some a \<Rightarrow> Some (searchRepositories oct a Map.empty c)
      | None \<Rightarrow> cmd_searchRepositories oct typed c)"

text \<open>
  \<^verbatim>\<open>showUserInfo\<close>: the figures it prints. \<^verbatim>\<open>Array.prototype.sort\<close> is stable, as is
  \<open>sort_key\<close>; the comparator \<^verbatim>\<open>b.stargazers_count - a.stargazers_count\<close> orders by
  descending stars.
\<close>

record user_info =
  info_username :: string
  total :: nat
  publicRepos :: nat
  privateRepos :: nat
  archivedRepos :: nat
  forks :: nat
  totalStars :: nat
  totalForks :: nat
  popularRepos :: "repo list"

definition summary :: "string \<Rightarrow> repo list \<Rightarrow> user_info" where
  "summary uname repos =
     \<lparr> info_username = uname,
       total = length repos,
       publicRepos = length (filter (\<lambda>repo. \<not> isPrivate repo) repos),
       privateRepos = length (filter (\<lambda>repo. isPrivate repo) repos),
       archivedRepos = length (filter (\<lambda>repo. archived repo) repos),
       forks = length (filter (\<lambda>repo. fork repo) repos),
       totalStars = foldl (\<lambda>sum repo. sum + stargazers_count repo) 0 repos,
       totalForks = foldl (\<lambda>sum repo. sum + forks_count repo) 0 repos,
       popularRepos = take 5 (sort_key (\<lambda>repo. - int (stargazers_count repo)) repos) \<rparr>"

definition showUserInfo ::
  "'p octokit \<Rightarrow> 'p client \<Rightarrow> (error + user_info) \<times> 'p client" where
  "showUserInfo oct c =
     (case getUsername oct c of
        (Inl e, c1) \<Rightarrow> (Inl e, c1)
      | (Inr uname, c1) \<Rightarrow>
          (case listRepositories oct Map.empty c1 of
             (Inl e, c2) \<Rightarrow> (Inl e, c2)
           | (Inr repos, c2) \<Rightarrow> (Inr (summary uname repos), c2)))"

text \<open>
  The repositories offered for a bulk visibility change, in the two versions of
  \<^verbatim>\<open>bulkChangeRepositoryVisibility\<close>. The version of commands.js asks the client for the
  public or the private listing. The older version lists everything and filters with
  \<^verbatim>\<open>repo.private !== targetVisibility\<close> (on an empty listing it returns just before,
  where the filter would be empty too).
\<close>

definition eligibleRepos_dedicated ::
  "'p octokit \<Rightarrow> bool \<Rightarrow> 'p client \<Rightarrow> (error + repo list) \<times> 'p client" where
  "eligibleRepos_dedicated oct targetVisibility c =
     (if targetVisibility then listPublicRepositories oct c
      else listPrivateRepositories oct c)"

definition eligibleRepos_filtered ::
  "'p octokit \<Rightarrow> bool \<Rightarrow> 'p client \<Rightarrow> (error + repo list) \<times> 'p client" where
  "eligibleRepos_filtered oct targetVisibility c =
     (case listRepositories oct Map.empty c of
        (Inl e, c') \<Rightarrow> (Inl e, c')
      | (Inr repos, c') \<Rightarrow>
          (Inr (filter (\<lambda>repo. isPrivate repo \<noteq> targetVisibility) repos), c'))"

section \<open>The life of a client\<close>




section \<open>Outcomes of a bulk run\<close>

text \<open>
  The vocabulary of the bulk-runner property. \<open>new\<close> are the requests a bulk run added
  to the log, in order. \<open>answered_names\<close> and \<open>rejected_names\<close> are the names of the
  targets whose request was answered and rejected, in the order of the targets.
  \<open>partition_in_order\<close>: one request per target, in the order of the targets; as many
  successes as answered requests; the failures are the targets whose request was
  rejected, by name and in order; and successes and failures together are as many as
  the targets.
\<close>

definition answered_names :: "repo list \<Rightarrow> (api_call \<times> bool) list \<Rightarrow> string list" where
  "answered_names repos new = map (\<lambda>p. name (fst p)) (filter (\<lambda>p. snd (snd p)) (zip repos new))"

definition rejected_names :: "repo list \<Rightarrow> (api_call \<times> bool) list \<Rightarrow> string list" where
  "rejected_names repos new =
     map (\<lambda>p. name (fst p)) (filter (\<lambda>p. \<not> snd (snd p)) (zip repos new))"

definition partition_in_order ::
  "(repo \<Rightarrow> api_call) \<Rightarrow> repo list \<Rightarrow> (api_call \<times> bool) list \<Rightarrow> nat \<Rightarrow> bulk_error list \<Rightarrow> bool" where
  "partition_in_order call repos new succeeded failed =
     (map fst new = map call repos
      \<and> succeeded = length (answered_names repos new)
      \<and> map err_name failed = rejected_names repos new
      \<and> succeeded + length failed = length repos)"

section \<open>A hosting provider\<close>

text \<open>
  A provider to run the client against: an account with its repositories in listing
  order. The listing is served in pages, \<^verbatim>\<open>per_page\<close> entries (30 when absent, at most
  100) from page \<^verbatim>\<open>page\<close> (1 when absent), as the provider's REST interface does.
\<close>

record hosting =
  account :: string
  hosted :: "raw_repo list"
  history :: "string \<Rightarrow> commit list"
  contributors_of :: "string \<Rightarrow> contributor list"
  languages_of :: "string \<Rightarrow> (string \<times> nat) list"

fun nat_param :: "param option \<Rightarrow> nat \<Rightarrow> nat" where
  "nat_param (Some (N k)) d = k"
| "nat_param _ d = d"

definition served_page :: "params \<Rightarrow> 'a list \<Rightarrow> 'a list" where
  "served_page ps entries =
     (let n = min 100 (nat_param (ps ''per_page'') 30);
          p = nat_param (ps ''page'') 1
      in take n (drop ((p - 1) * n) entries))"

definition hosts :: "hosting \<Rightarrow> string \<Rightarrow> string \<Rightarrow> bool" where
  "hosts h owner rname = (owner = account h \<and> rname \<in> set (map raw_name (hosted h)))"

fun patch :: "params \<Rightarrow> raw_repo \<Rightarrow> raw_repo" where
  "patch ps r =
     (let r1 = (case ps ''private'' of Some (B b) \<Rightarrow> r\<lparr>raw_private := b\<rparr> | _ \<Rightarrow> r)
      in (case ps ''archived'' of Some (B b) \<Rightarrow> r1\<lparr>raw_archived := Some b\<rparr> | _ \<Rightarrow> r1))"

fun query_term :: "param option \<Rightarrow> jstring" where
  "query_term (Some (S q)) = takeWhile (\<lambda>u. u \<noteq> 0x0020) q"
| "query_term _ = []"

definition github :: "hosting octokit" where
  "github =
     \<lparr> users_getAuthenticated = (\<lambda>h. (Inr (account h), h)),
       repos_listForAuthenticatedUser = (\<lambda>ps h. (Inr (served_page ps (hosted h)), h)),
       search_repos =
         (\<lambda>ps h. (Inr (served_page ps
                     (filter (\<lambda>r. prefix (query_term (ps ''q'')) (js (raw_name r)))
                        (hosted h))), h)),
       repos_get =
         (\<lambda>owner rname h.
            case find (\<lambda>r. owner = account h \<and> raw_name r = rname) (hosted h) of
              Some r \<Rightarrow> (Inr r, h)
            | None \<Rightarrow> (Inl (Error ''Not Found''), h)),
       repos_delete =
         (\<lambda>owner rname h.
            if hosts h owner rname
            then (Inr (), h\<lparr>hosted := filter (\<lambda>r. raw_name r \<noteq> rname) (hosted h)\<rparr>)
            else (Inl (Error ''Not Found''), h)),
       repos_update =
         (\<lambda>owner rname ps h.
            case find (\<lambda>r. owner = account h \<and> raw_name r = rname) (hosted h) of
              Some r \<Rightarrow>
                (Inr (patch ps r),
                 h\<lparr>hosted := map (\<lambda>x. if raw_name x = rname then patch ps x else x) (hosted h)\<rparr>)
            | None \<Rightarrow> (Inl (Error ''Not Found''), h)),
       repos_listContributors =
         (\<lambda>owner rname h.
            if hosts h owner rname then (Inr (contributors_of h rname), h)
            else (Inl (Error ''Not Found''), h)),
       repos_listLanguages =
         (\<lambda>owner rname h.
            if hosts h owner rname then (Inr (languages_of h rname), h)
            else (Inl (Error ''Not Found''), h)),
       repos_listCommits =
         (\<lambda>owner rname ps h.
            if \<not> hosts h owner rname then (Inl (Error ''Not Found''), h)
            else if history h rname = [] then (Inl (Error ''Git Repository is empty.''), h)
            else (Inr (served_page ps (history h rname)), h)) \<rparr>"

text \<open>A provider that cannot be reached: every request is rejected.\<close>

definition unreachable :: "'p octokit" where
  "unreachable =
     \<lparr> users_getAuthenticated = (\<lambda>p. (Inl (Error ''Network Error''), p)),
       repos_listForAuthenticatedUser = (\<lambda>ps p. (Inl (Error ''Network Error''), p)),
       search_repos = (\<lambda>ps p. (Inl (Error ''Network Error''), p)),
       repos_get = (\<lambda>owner rname p. (Inl (Error ''Network Error''), p)),
       repos_delete = (\<lambda>owner rname p. (Inl (Error ''Network Error''), p)),
       repos_update = (\<lambda>owner rname ps p. (Inl (Error ''Network Error''), p)),
       repos_listContributors = (\<lambda>owner rname p. (Inl (Error ''Network Error''), p)),
       repos_listLanguages = (\<lambda>owner rname p. (Inl (Error ''Network Error''), p)),
       repos_listCommits = (\<lambda>owner rname ps p. (Inl (Error ''Network Error''), p)) \<rparr>"

text \<open>A repository of the provider, with the fields the examples vary.\<close>

definition hosted_repo :: "nat \<Rightarrow> string \<Rightarrow> bool \<Rightarrow> bool option \<Rightarrow> raw_repo" where
  "hosted_repo i n priv arch =
     \<lparr> raw_id = i, raw_name = n, raw_full_name = ''octo/'' @ n, raw_description = None,
       raw_private = priv, raw_fork = False, raw_language = None,
       raw_stargazers_count = 0, raw_forks_count = 0,
       raw_updated_at = ''2024-01-01T00:00:00Z'', raw_created_at = ''2023-01-01T00:00:00Z'',
       raw_html_url = ''https://example.org/octo/'' @ n,
       raw_clone_url = ''https://example.org/octo/'' @ n @ ''.git'',
       raw_archived = arch, raw_default_branch = None, raw_size = None,
       raw_open_issues_count = None, raw_topics = None \<rparr>"

definition octo :: "raw_repo list \<Rightarrow> hosting" where
  "octo rs =
     \<lparr> account = ''octo'', hosted = rs, history = (\<lambda>_. []),
       contributors_of = (\<lambda>_. []), languages_of = (\<lambda>_. []) \<rparr>"

text \<open>A fresh client of a provider: no username configured, nothing requested yet.\<close>

definition fresh :: "'p \<Rightarrow> 'p client" where
  "fresh p = \<lparr> username = None, remote = p, requests = [] \<rparr>"

text \<open>
  Example accounts. \<open>filler\<close> is a first page of a hundred repositories; \<open>trio\<close> and
  \<open>fifteen\<close> (five private, three archived) come after it in the listing.
\<close>

definition filler :: "raw_repo list" where
  "filler = map (\<lambda>i. hosted_repo i ''old'' False None) [0..<100]"

definition trio :: "raw_repo list" where
  "trio = [hosted_repo 100 ''alpha'' False None,
           hosted_repo 101 ''beta'' True (Some True),
           hosted_repo 102 ''gamma'' True (Some False)]"

definition fifteen :: "raw_repo list" where
  "fifteen =
     map (\<lambda>i. hosted_repo (100 + i) ''r'' (i < 5) (if i mod 5 = 0 then Some True else None))
       [0..<15]"

text \<open>An account with the repositories numbered \<open>i\<close> to \<open>j - 1\<close>.\<close>

definition numbered :: "nat \<Rightarrow> nat \<Rightarrow> raw_repo list" where
  "numbered i j = map (\<lambda>k. hosted_repo k ''repo'' False None) [i..<j]"

text \<open>Three targets of a bulk run; the second is not a repository of the account.\<close>

definition targets :: "repo list" where
  "targets = map normalizeRepo [hosted_repo 100 ''alpha'' False None,
                                hosted_repo 7 ''ghost'' False None,
                                hosted_repo 102 ''gamma'' True (Some False)]"

section \<open>Properties\<close>

subsection \<open>Auxiliary facts\<close>

lemma list_defaults_page:
  "list_defaults ''per_page'' = Some (N 100)" "list_defaults ''page'' = Some (N 2)"
  by (simp_all add: list_defaults_def)

lemma github_second_page:
  "length xs \<le> 100 \<Longrightarrow>
   listRepositories github Map.empty (fresh (octo (filler @ xs)))
     = (Inr (map normalizeRepo xs),
        \<lparr>username = None, remote = octo (filler @ xs),
         requests = [(ListForAuthenticatedUser list_defaults, True)]\<rparr>)"
  by (simp add: listRepositories_def request_def github_def fresh_def octo_def served_page_def
        list_defaults_page filler_def)

lemma github_page_two:
  "length xs \<le> 100 \<Longrightarrow> remote c = octo (filler @ xs) \<Longrightarrow>
   listRepositories github Map.empty c
     = (Inr (map normalizeRepo xs),
        c\<lparr>requests := requests c @ [(ListForAuthenticatedUser list_defaults, True)]\<rparr>)"
  by (simp add: listRepositories_def request_def github_def octo_def served_page_def
        list_defaults_page filler_def)

lemma github_login:
  "getUsername github (fresh h)
     = (Inr (account h),
        \<lparr>username = Some (account h), remote = h, requests = [(GetAuthenticated, True)]\<rparr>)"
  by (simp add: getUsername_def request_def github_def fresh_def)

lemma fifteen_counts:
  "length fifteen = 15"
  "length (filter archived (map normalizeRepo fifteen)) = 3"
  "length (filter isPrivate (map normalizeRepo fifteen)) = 5"
  by (simp_all add: fifteen_def normalizeRepo_def hosted_repo_def upt_rec)

lemma or_false_iff: "or_false b = (b = Some True)"
  by (cases b) auto

lemma stats_alpha:
  "repos_listContributors github ''octo'' ''alpha'' (octo trio) = (Inr [], octo trio)"
  "repos_listLanguages github ''octo'' ''alpha'' (octo trio) = (Inr [], octo trio)"
  "repos_listCommits github ''octo'' ''alpha'' [''per_page'' \<mapsto> N 1] (octo trio)
     = (Inl (Error ''Git Repository is empty.''), octo trio)"
  by (simp_all add: github_def hosts_def octo_def trio_def hosted_repo_def)

lemma details_alpha:
  "getRepository github ''octo'' ''alpha'' (fresh (octo trio))
     = (Inr (normalizeDetails (hosted_repo 100 ''alpha'' False None)),
        \<lparr>username = None, remote = octo trio, requests = [(ReposGet ''octo'' ''alpha'', True)]\<rparr>)"
  by (simp add: getRepository_def request_def github_def fresh_def octo_def trio_def hosted_repo_def)

lemma search_al:
  "searchRepositories github (js ''al'') Map.empty (fresh (octo trio))
     = (Inr [normalizeRepo (hosted_repo 100 ''alpha'' False None)],
        \<lparr>username = Some ''octo'', remote = octo trio,
         requests = [(GetAuthenticated, True), (SearchRepos (search_defaults (js ''al'') ''octo''), True)]\<rparr>)"
  by (simp add: searchRepositories_def github_login)
     (simp add: request_def github_def octo_def trio_def hosted_repo_def search_defaults_def
        served_page_def js_def)

subsection \<open>Derived listings\<close>

text \<open>
  Claim C4. For every full listing, the derived subsets are exact partitions: the active
  and the archived listing are disjoint and together are the full listing, and so are
  the public and the private listing. The four derived listings are taken from the same
  client state as the full listing, so they see the same snapshot; the partition holds
  for the repositories as sets and, counting repeated entries, as multisets.
\<close>

theorem derived_subsets_partition:
  assumes "listRepositories oct Map.empty c = (Inr listing, c')"
  shows "\<exists>active arch pub priv.
           listActiveRepositories oct c = (Inr active, c')
         \<and> listArchivedRepositories oct c = (Inr arch, c')
         \<and> listPublicRepositories oct c = (Inr pub, c')
         \<and> listPrivateRepositories oct c = (Inr priv, c')
         \<and> set active \<union> set arch = set listing \<and> set active \<inter> set arch = {}
         \<and> set pub \<union> set priv = set listing \<and> set pub \<inter> set priv = {}
         \<and> mset active + mset arch = mset listing
         \<and> mset pub + mset priv = mset listing"
  using assms
  by (auto simp: listActiveRepositories_def listArchivedRepositories_def
        listPublicRepositories_def listPrivateRepositories_def)

theorem derived_subsets_partition_witness:
  "fst (listRepositories github Map.empty (fresh (octo (filler @ trio))))
     = Inr (map normalizeRepo trio)
   \<and> (\<exists>active arch pub priv c'.
           listActiveRepositories github (fresh (octo (filler @ trio))) = (Inr active, c')
         \<and> listArchivedRepositories github (fresh (octo (filler @ trio))) = (Inr arch, c')
         \<and> listPublicRepositories github (fresh (octo (filler @ trio))) = (Inr pub, c')
         \<and> listPrivateRepositories github (fresh (octo (filler @ trio))) = (Inr priv, c')
         \<and> set active \<union> set arch = set (map normalizeRepo trio)
         \<and> set active \<inter> set arch = {}
         \<and> set pub \<union> set priv = set (map normalizeRepo trio)
         \<and> set pub \<inter> set priv = {}
         \<and> mset active + mset arch = mset (map normalizeRepo trio)
         \<and> mset pub + mset priv = mset (map normalizeRepo trio))"
proof -
  have h: "listRepositories github Map.empty (fresh (octo (filler @ trio)))
             = (Inr (map normalizeRepo trio),
                \<lparr>username = None, remote = octo (filler @ trio),
                 requests = [(ListForAuthenticatedUser list_defaults, True)]\<rparr>)"
    by (rule github_second_page) (simp add: trio_def)
  from derived_subsets_partition [OF h] h show ?thesis
    by (metis fst_conv)
qed

subsection \<open>Bulk visibility: the two ways to find the eligible repositories\<close>

text \<open>
  Claim C8. The two bulk-visibility implementations are equivalent: from the same
  snapshot and for the same target visibility, filtering the full listing with
  \<^verbatim>\<open>repo.private !== targetVisibility\<close> and asking for the public or private listing give
  the same eligible repositories. Both leave the client in the same state, both fail on
  the same inputs, and when they succeed they return the same list.
\<close>

theorem bulk_visibility_variants_agree:
  "snd (eligibleRepos_dedicated oct targetVisibility c)
     = snd (eligibleRepos_filtered oct targetVisibility c)
   \<and> isl (fst (eligibleRepos_dedicated oct targetVisibility c))
     = isl (fst (eligibleRepos_filtered oct targetVisibility c))
   \<and> (\<forall>rs. (fst (eligibleRepos_dedicated oct targetVisibility c) = Inr rs)
          = (fst (eligibleRepos_filtered oct targetVisibility c) = Inr rs))"
  by (cases targetVisibility)
     (auto simp: eligibleRepos_dedicated_def eligibleRepos_filtered_def
        listPublicRepositories_def listPrivateRepositories_def split: prod.splits sum.splits)

theorem bulk_visibility_variants_agree_witness:
  "fst (eligibleRepos_filtered github False (fresh (octo (filler @ trio))))
     = Inr (map normalizeRepo [hosted_repo 101 ''beta'' True (Some True),
                               hosted_repo 102 ''gamma'' True (Some False)])
   \<and> fst (eligibleRepos_dedicated github False (fresh (octo (filler @ trio))))
     = Inr (map normalizeRepo [hosted_repo 101 ''beta'' True (Some True),
                               hosted_repo 102 ''gamma'' True (Some False)])"
proof -
  have l: "length trio \<le> 100" by (simp add: trio_def)
  have "fst (eligibleRepos_filtered github False (fresh (octo (filler @ trio))))
          = Inr (map normalizeRepo [hosted_repo 101 ''beta'' True (Some True),
                                    hosted_repo 102 ''gamma'' True (Some False)])"
    by (simp add: eligibleRepos_filtered_def github_second_page [OF l])
       (simp add: trio_def normalizeRepo_def hosted_repo_def)
  with bulk_visibility_variants_agree [of github False "fresh (octo (filler @ trio))"]
  show ?thesis by simp
qed

subsection \<open>The account summary\<close>

text \<open>
  Claim C9. For every listing, the counts of the info summary are consistent: the total
  is the length of the listing that \<^verbatim>\<open>showUserInfo\<close> fetched, the archived count is the
  number of repositories with \<^verbatim>\<open>archived\<close> true, the private count is the number with
  \<^verbatim>\<open>private\<close> true, and the public count is the total minus the private count. For a
  listing of 15 repositories with 3 archived and 5 private the summary reports total 15,
  archived 3, private 5, public 10.
\<close>

theorem info_summary_counts:
  assumes "showUserInfo oct c = (Inr info, c')"
  shows "\<exists>repos. fst (listRepositories oct Map.empty (snd (getUsername oct c))) = Inr repos
           \<and> total info = length repos
           \<and> archivedRepos info = length (filter archived repos)
           \<and> privateRepos info = length (filter isPrivate repos)
           \<and> publicRepos info = total info - privateRepos info"
proof -
  from assms obtain uname repos where
    l: "listRepositories oct Map.empty (snd (getUsername oct c)) = (Inr repos, c')" and
    i: "info = summary uname repos"
    by (auto simp: showUserInfo_def split: prod.splits sum.splits)
  have "length (filter (\<lambda>repo. \<not> isPrivate repo) repos)
          = length repos - length (filter isPrivate repos)"
    using sum_length_filter_compl [of isPrivate repos] by simp
  with l i show ?thesis by (simp add: summary_def)
qed

theorem info_summary_counts_witness:
  "showUserInfo github (fresh (octo (filler @ fifteen)))
     = (Inr (summary ''octo'' (map normalizeRepo fifteen)),
        \<lparr>username = Some ''octo'', remote = octo (filler @ fifteen),
         requests = [(GetAuthenticated, True), (ListForAuthenticatedUser list_defaults, True)]\<rparr>)
   \<and> total (summary ''octo'' (map normalizeRepo fifteen)) = 15
   \<and> archivedRepos (summary ''octo'' (map normalizeRepo fifteen)) = 3
   \<and> privateRepos (summary ''octo'' (map normalizeRepo fifteen)) = 5
   \<and> publicRepos (summary ''octo'' (map normalizeRepo fifteen)) = 10"
proof -
  have l: "length fifteen \<le> 100" by (simp add: fifteen_counts)
  have h: "showUserInfo github (fresh (octo (filler @ fifteen)))
     = (Inr (summary ''octo'' (map normalizeRepo fifteen)),
        \<lparr>username = Some ''octo'', remote = octo (filler @ fifteen),
         requests = [(GetAuthenticated, True), (ListForAuthenticatedUser list_defaults, True)]\<rparr>)"
    by (simp add: showUserInfo_def github_login github_page_two [OF l]) (simp add: octo_def)
  have g: "fst (listRepositories github Map.empty
                  (snd (getUsername github (fresh (octo (filler @ fifteen))))))
             = Inr (map normalizeRepo fifteen)"
    by (simp add: github_login github_page_two [OF l])
  from info_summary_counts [OF h] g show ?thesis
    using h by (simp add: fifteen_counts del: length_filter_map)
qed

subsection \<open>Normalised repositories\<close>

text \<open>
  Claim C10. Every repository object returned at the client boundary is normalised with
  defaults for absent provider fields: \<^verbatim>\<open>listRepositories\<close>, \<^verbatim>\<open>searchRepositories\<close> and
  \<^verbatim>\<open>getRepository\<close> return, for each repository of the provider's answer and in its
  order, an object whose \<^verbatim>\<open>archived\<close> is a boolean, true exactly when the provider sent
  true (so false when the provider omits it), and \<^verbatim>\<open>getRepository\<close> returns \<^verbatim>\<open>topics\<close>
  as a list, empty when the provider omits it.
\<close>

theorem repositories_normalized:
  "(listRepositories oct options c = (Inr rs, c') \<longrightarrow>
      (\<exists>raws. fst (repos_listForAuthenticatedUser oct (list_defaults ++ options) (remote c)) = Inr raws
         \<and> rs = map normalizeRepo raws
         \<and> map archived rs = map (\<lambda>raw. raw_archived raw = Some True) raws))
   \<and> (searchRepositories oct query options c = (Inr found, c'') \<longrightarrow>
      (\<exists>items uname. fst (getUsername oct c) = Inr uname
         \<and> fst (search_repos oct (search_defaults query uname ++ options)
                  (remote (snd (getUsername oct c)))) = Inr items
         \<and> found = map normalizeRepo items
         \<and> map archived found = map (\<lambda>raw. raw_archived raw = Some True) items))
   \<and> (getRepository oct owner rname c = (Inr details, c''') \<longrightarrow>
      (\<exists>raw. fst (repos_get oct owner rname (remote c)) = Inr raw
         \<and> details = normalizeDetails raw
         \<and> archived details = (raw_archived raw = Some True)
         \<and> topics details = (case raw_topics raw of None \<Rightarrow> [] | Some ts \<Rightarrow> ts)))"
proof (intro conjI impI)
  assume "listRepositories oct options c = (Inr rs, c')"
  then show "\<exists>raws. fst (repos_listForAuthenticatedUser oct (list_defaults ++ options) (remote c)) = Inr raws
         \<and> rs = map normalizeRepo raws
         \<and> map archived rs = map (\<lambda>raw. raw_archived raw = Some True) raws"
    by (auto simp: listRepositories_def request_def Let_def normalizeRepo_def or_false_iff
          split: prod.splits sum.splits)
next
  assume "searchRepositories oct query options c = (Inr found, c'')"
  then show "\<exists>items uname. fst (getUsername oct c) = Inr uname
         \<and> fst (search_repos oct (search_defaults query uname ++ options)
                  (remote (snd (getUsername oct c)))) = Inr items
         \<and> found = map normalizeRepo items
         \<and> map archived found = map (\<lambda>raw. raw_archived raw = Some True) items"
    by (auto simp: searchRepositories_def request_def Let_def normalizeRepo_def or_false_iff
          split: prod.splits sum.splits)
next
  assume "getRepository oct owner rname c = (Inr details, c''')"
  then show "\<exists>raw. fst (repos_get oct owner rname (remote c)) = Inr raw
         \<and> details = normalizeDetails raw
         \<and> archived details = (raw_archived raw = Some True)
         \<and> topics details = (case raw_topics raw of None \<Rightarrow> [] | Some ts \<Rightarrow> ts)"
    by (auto simp: getRepository_def request_def normalizeDetails_def or_false_iff
          split: prod.splits sum.splits option.splits)
qed

theorem repositories_normalized_witness:
  "map archived (map normalizeRepo trio) = [False, True, False]
   \<and> fst (listRepositories github Map.empty (fresh (octo (filler @ trio)))) = Inr (map normalizeRepo trio)
   \<and> fst (searchRepositories github (js ''al'') Map.empty (fresh (octo trio)))
       = Inr [normalizeRepo (hosted_repo 100 ''alpha'' False None)]
   \<and> archived (normalizeRepo (hosted_repo 100 ''alpha'' False None)) = False
   \<and> fst (getRepository github ''octo'' ''alpha'' (fresh (octo trio)))
       = Inr (normalizeDetails (hosted_repo 100 ''alpha'' False None))
   \<and> archived (normalizeDetails (hosted_repo 100 ''alpha'' False None)) = False
   \<and> topics (normalizeDetails (hosted_repo 100 ''alpha'' False None)) = []"
proof -
  have l: "length trio \<le> 100" by (simp add: trio_def)
  note h1 = github_second_page [OF l]
  have t: "map (\<lambda>raw. raw_archived raw = Some True) trio = [False, True, False]"
    by (simp add: trio_def hosted_repo_def)
  have g: "repos_listForAuthenticatedUser github (list_defaults ++ Map.empty)
             (remote (fresh (octo (filler @ trio)))) = (Inr trio, octo (filler @ trio))"
    using l by (simp add: github_def fresh_def octo_def served_page_def list_defaults_page filler_def)
  have a: "raw_archived (hosted_repo 100 ''alpha'' False None) = None"
          "raw_topics (hosted_repo 100 ''alpha'' False None) = None"
    by (simp_all add: hosted_repo_def)
  have n1: "\<exists>raws. fst (repos_listForAuthenticatedUser github (list_defaults ++ Map.empty)
                         (remote (fresh (octo (filler @ trio))))) = Inr raws
               \<and> map normalizeRepo trio = map normalizeRepo raws
               \<and> map archived (map normalizeRepo trio) = map (\<lambda>raw. raw_archived raw = Some True) raws"
    using repositories_normalized [where oct = github and options = Map.empty
             and c = "fresh (octo (filler @ trio))" and rs = "map normalizeRepo trio"] h1
    by blast
  have n2: "\<exists>items uname. fst (getUsername github (fresh (octo trio))) = Inr uname
         \<and> fst (search_repos github (search_defaults (js ''al'') uname ++ Map.empty)
                  (remote (snd (getUsername github (fresh (octo trio)))))) = Inr items
         \<and> [normalizeRepo (hosted_repo 100 ''alpha'' False None)] = map normalizeRepo items
         \<and> map archived [normalizeRepo (hosted_repo 100 ''alpha'' False None)]
             = map (\<lambda>raw. raw_archived raw = Some True) items"
    using repositories_normalized [where oct = github and options = Map.empty
             and c = "fresh (octo trio)" and query = "js ''al''"
             and found = "[normalizeRepo (hosted_repo 100 ''alpha'' False None)]"] search_al
    by blast
  have n3: "\<exists>raw. fst (repos_get github ''octo'' ''alpha'' (remote (fresh (octo trio)))) = Inr raw
         \<and> normalizeDetails (hosted_repo 100 ''alpha'' False None) = normalizeDetails raw
         \<and> archived (normalizeDetails (hosted_repo 100 ''alpha'' False None)) = (raw_archived raw = Some True)
         \<and> topics (normalizeDetails (hosted_repo 100 ''alpha'' False None))
             = (case raw_topics raw of None \<Rightarrow> [] | Some ts \<Rightarrow> ts)"
    using repositories_normalized [where oct = github and c = "fresh (octo trio)"
             and owner = "''octo''" and rname = "''alpha''"
             and details = "normalizeDetails (hosted_repo 100 ''alpha'' False None)"] details_alpha
    by blast
  have g3: "fst (repos_get github ''octo'' ''alpha'' (remote (fresh (octo trio))))
              = Inr (hosted_repo 100 ''alpha'' False None)"
    by (simp add: github_def fresh_def octo_def trio_def hosted_repo_def)
  have g2: "fst (getUsername github (fresh (octo trio))) = Inr ''octo''"
           "fst (search_repos github (search_defaults (js ''al'') ''octo'' ++ Map.empty)
                  (remote (snd (getUsername github (fresh (octo trio))))))
              = Inr [hosted_repo 100 ''alpha'' False None]"
    by (simp_all add: github_login)
       (simp_all add: github_def octo_def trio_def hosted_repo_def search_defaults_def served_page_def
          js_def)
  from n1 g t have c1: "map archived (map normalizeRepo trio) = [False, True, False]"
    by auto
  from n2 g2 a have c2: "archived (normalizeRepo (hosted_repo 100 ''alpha'' False None)) = False"
    by auto
  from n3 g3 a have c3: "archived (normalizeDetails (hosted_repo 100 ''alpha'' False None)) = False"
       "topics (normalizeDetails (hosted_repo 100 ''alpha'' False None)) = []"
    by auto
  from c1 c2 c3 h1 search_al details_alpha show ?thesis by simp
qed

subsection \<open>Repository statistics\<close>

text \<open>
  Claim C6. \<^verbatim>\<open>getRepositoryStats\<close> tolerates partial failure: whatever the three
  sub-fetches (contributors, languages, latest commit) answer, the call succeeds; a
  failed contributors fetch gives a count of 0, a failed languages fetch the empty
  language map, and a failed commits fetch (as for an empty commit history) or an empty
  commit list gives a null last commit.
\<close>

theorem stats_tolerate_partial_failure:
  assumes "repos_listContributors oct owner rname (remote c) = (r1, p1)"
      and "repos_listLanguages oct owner rname p1 = (r2, p2)"
      and "repos_listCommits oct owner rname [''per_page'' \<mapsto> N 1] p2 = (r3, p3)"
  shows "\<exists>stats c'. getRepositoryStats oct owner rname c = (Inr stats, c')
           \<and> remote c' = p3
           \<and> contributors_count stats = (case r1 of Inl _ \<Rightarrow> 0 | Inr d \<Rightarrow> length d)
           \<and> languages stats = (case r2 of Inl _ \<Rightarrow> [] | Inr d \<Rightarrow> d)
           \<and> last_commit stats = (case r3 of Inl _ \<Rightarrow> None | Inr [] \<Rightarrow> None | Inr (x # _) \<Rightarrow> Some x)"
  using assms
  by (auto simp: getRepositoryStats_def request_def split: sum.splits list.splits)

theorem stats_tolerate_partial_failure_witness:
  "(\<exists>stats c'. getRepositoryStats github ''octo'' ''alpha'' (fresh (octo trio)) = (Inr stats, c')
       \<and> contributors_count stats = 0 \<and> languages stats = [] \<and> last_commit stats = None)
   \<and> (\<exists>stats c'. getRepositoryStats unreachable ''octo'' ''alpha'' (fresh ()) = (Inr stats, c')
       \<and> contributors_count stats = 0 \<and> languages stats = [] \<and> last_commit stats = None)"
proof -
  have r: "remote (fresh p) = p" for p :: 'a by (simp add: fresh_def)
  have a: "repos_listContributors github ''octo'' ''alpha'' (remote (fresh (octo trio))) = (Inr [], octo trio)"
    by (simp add: r stats_alpha)
  have u1: "repos_listContributors unreachable ''octo'' ''alpha'' (remote (fresh ()))
              = (Inl (Error ''Network Error''), ())"
    by (simp add: unreachable_def)
  have u2: "repos_listLanguages unreachable ''octo'' ''alpha'' () = (Inl (Error ''Network Error''), ())"
    by (simp add: unreachable_def)
  have u3: "repos_listCommits unreachable ''octo'' ''alpha'' [''per_page'' \<mapsto> N 1] ()
              = (Inl (Error ''Network Error''), ())"
    by (simp add: unreachable_def)
  from stats_tolerate_partial_failure [OF a stats_alpha(2) stats_alpha(3)]
       stats_tolerate_partial_failure [OF u1 u2 u3]
  show ?thesis by auto
qed

subsection \<open>The cached username\<close>











lemma pushed_snd: "snd (pushed item r) = snd r"
  by (cases r; cases "fst r") auto








subsection \<open>Listing and pages\<close>

text \<open>
  With the default options the request asks for the second page, so an account whose
  repositories fit on the first page lists none of them.
\<close>

lemma first_page_skipped:
  "list_defaults ''page'' = Some (N 2)
   \<and> fst (listRepositories github Map.empty (fresh (octo trio))) = Inr []"
  by (simp add: listRepositories_def request_def github_def fresh_def octo_def served_page_def
        list_defaults_page trio_def)

text \<open>
  Claim C1, as stated: \<^verbatim>\<open>listRepositories\<close> follows every page of the provider's listing,
  so no visible repository is missing from the result. It does not: for an account with
  250 repositories it returns the 100 of one page, and the repository numbered 249 is
  visible but not returned.
\<close>

theorem listRepositories_all_pages_counterexample:
  "length (hosted (octo (numbered 0 250))) = 250
   \<and> hosted_repo 249 ''repo'' False None \<in> set (hosted (octo (numbered 0 250)))
   \<and> fst (listRepositories github Map.empty (fresh (octo (numbered 0 250))))
       = Inr (map normalizeRepo (numbered 100 200))
   \<and> normalizeRepo (hosted_repo 249 ''repo'' False None)
       \<notin> set (map normalizeRepo (numbered 100 200))"
proof -
  have d: "take 100 (drop 100 (numbered 0 250)) = numbered 100 200"
    by (simp add: numbered_def take_map drop_map)
  have "fst (listRepositories github Map.empty (fresh (octo (numbered 0 250))))
       = Inr (map normalizeRepo (numbered 100 200))"
    by (simp add: listRepositories_def request_def github_def fresh_def octo_def served_page_def
          list_defaults_page d)
  moreover have "normalizeRepo (hosted_repo 249 ''repo'' False None)
       \<notin> set (map normalizeRepo (numbered 100 200))"
    by (auto simp: numbered_def normalizeRepo_def hosted_repo_def)
  moreover have "hosted_repo 249 ''repo'' False None \<in> set (hosted (octo (numbered 0 250)))"
    by (simp add: octo_def numbered_def)
  ultimately show ?thesis by (simp add: octo_def numbered_def)
qed

text \<open>
  Claim C1, amended. \<^verbatim>\<open>listRepositories\<close> issues exactly one listing request, with its
  defaults overridden by the options, and returns what that one request is answered:
  the repositories of the answer, normalised and in order, or the failure. Against the
  paged provider the result is exactly the page the request asks for: the \<^verbatim>\<open>per_page\<close>
  entries (at most 100; 100 with the default options) that start at entry
  \<^verbatim>\<open>(page - 1) * per_page\<close> of the listing. Further pages are not requested.
\<close>

theorem listRepositories_single_page:
  "(\<exists>out p'. repos_listForAuthenticatedUser oct (list_defaults ++ options) (remote c) = (out, p')
       \<and> listRepositories oct options c
           = ((case out of
                 Inr raws \<Rightarrow> Inr (map normalizeRepo raws)
               | Inl e \<Rightarrow> Inl (Error (''Failed to list repositories: '' @ message e))),
              c\<lparr>remote := p',
                requests := requests c
                  @ [(ListForAuthenticatedUser (list_defaults ++ options), answered out)]\<rparr>))
   \<and> listRepositories github options g
       = (Inr (map normalizeRepo
                 (take (min 100 (nat_param ((list_defaults ++ options) ''per_page'') 30))
                    (drop ((nat_param ((list_defaults ++ options) ''page'') 1 - 1)
                            * min 100 (nat_param ((list_defaults ++ options) ''per_page'') 30))
                       (hosted (remote g))))),
          g\<lparr>requests := requests g
               @ [(ListForAuthenticatedUser (list_defaults ++ options), True)]\<rparr>)
   \<and> listRepositories github Map.empty g
       = (Inr (map normalizeRepo
                 (take 100 (drop ((nat_param (list_defaults ''page'') 1 - 1) * 100)
                    (hosted (remote g))))),
          g\<lparr>requests := requests g @ [(ListForAuthenticatedUser list_defaults, True)]\<rparr>)
   \<and> (\<exists>rs g'. listRepositories github options g = (Inr rs, g') \<and> length rs \<le> 100)"
proof (intro conjI)
  show "\<exists>out p'. repos_listForAuthenticatedUser oct (list_defaults ++ options) (remote c) = (out, p')
       \<and> listRepositories oct options c
           = ((case out of
                 Inr raws \<Rightarrow> Inr (map normalizeRepo raws)
               | Inl e \<Rightarrow> Inl (Error (''Failed to list repositories: '' @ message e))),
              c\<lparr>remote := p',
                requests := requests c
                  @ [(ListForAuthenticatedUser (list_defaults ++ options), answered out)]\<rparr>)"
    by (auto simp: listRepositories_def request_def Let_def split: prod.splits sum.splits)
next
  show paged: "listRepositories github options g
       = (Inr (map normalizeRepo
                 (take (min 100 (nat_param ((list_defaults ++ options) ''per_page'') 30))
                    (drop ((nat_param ((list_defaults ++ options) ''page'') 1 - 1)
                            * min 100 (nat_param ((list_defaults ++ options) ''per_page'') 30))
                       (hosted (remote g))))),
          g\<lparr>requests := requests g
               @ [(ListForAuthenticatedUser (list_defaults ++ options), True)]\<rparr>)"
    by (simp add: listRepositories_def request_def github_def served_page_def Let_def)
  then show "\<exists>rs g'. listRepositories github options g = (Inr rs, g') \<and> length rs \<le> 100"
    by simp
next
  show "listRepositories github Map.empty g
       = (Inr (map normalizeRepo
                 (take 100 (drop ((nat_param (list_defaults ''page'') 1 - 1) * 100)
                    (hosted (remote g))))),
          g\<lparr>requests := requests g @ [(ListForAuthenticatedUser list_defaults, True)]\<rparr>)"
    by (simp add: listRepositories_def request_def github_def served_page_def
          list_defaults_page(1))
qed

theorem listRepositories_single_page_witness:
  "listRepositories github [''page'' \<mapsto> N 1, ''per_page'' \<mapsto> N 2] (fresh (octo trio))
     = (Inr (map normalizeRepo [hosted_repo 100 ''alpha'' False None,
                                hosted_repo 101 ''beta'' True (Some True)]),
        \<lparr>username = None, remote = octo trio,
         requests = [(ListForAuthenticatedUser
                        (list_defaults ++ [''page'' \<mapsto> N 1, ''per_page'' \<mapsto> N 2]), True)]\<rparr>)
   \<and> length trio = 3"
proof -
  have p: "(list_defaults ++ [''page'' \<mapsto> N 1, ''per_page'' \<mapsto> N 2]) ''per_page'' = Some (N 2)"
          "(list_defaults ++ [''page'' \<mapsto> N 1, ''per_page'' \<mapsto> N 2]) ''page'' = Some (N 1)"
    by simp_all
  from listRepositories_single_page
         [of github "[''page'' \<mapsto> N 1, ''per_page'' \<mapsto> N 2]" "fresh (octo trio)" "fresh (octo trio)"]
  have "listRepositories github [''page'' \<mapsto> N 1, ''per_page'' \<mapsto> N 2] (fresh (octo trio))
       = (Inr (map normalizeRepo
                 (take (min 100 (nat_param (Some (N 2)) 30))
                    (drop ((nat_param (Some (N 1)) 1 - 1) * min 100 (nat_param (Some (N 2)) 30))
                       (hosted (remote (fresh (octo trio))))))),
          (fresh (octo trio))\<lparr>requests := requests (fresh (octo trio))
               @ [(ListForAuthenticatedUser
                     (list_defaults ++ [''page'' \<mapsto> N 1, ''per_page'' \<mapsto> N 2]), True)]\<rparr>)"
    unfolding p by blast
  then show ?thesis
    by (simp add: fresh_def octo_def trio_def)
qed

subsection \<open>The search query\<close>

lemma validateQuery_iff:
  "(validateQuery input = Inl ''Search query cannot be empty'') = (trim input = [])"
  "(validateQuery input = Inr ()) = (trim input \<noteq> [])"
  by (simp_all add: validateQuery_def)

lemma getSearchQuery_None: "(getSearchQuery typed = None) = (\<forall>input \<in> set typed. trim input = [])"
  by (induction typed) (auto simp: validateQuery_def)

lemma getSearchQuery_Some:
  "getSearchQuery typed = Some q \<Longrightarrow> \<exists>input \<in> set typed. trim input \<noteq> [] \<and> q = trim input"
  by (induction typed) (auto simp: validateQuery_def split: if_splits)

lemma trim_idem: "trim (trim s) = trim s"
proof -
  define t where "t = dropWhile isWhitespace s"
  define u where "u = rev (dropWhile isWhitespace (rev t))"
  have u: "dropWhile isWhitespace u = u"
  proof (cases u)
    case Nil
    then show ?thesis by simp
  next
    case (Cons x xs)
    obtain ys where "rev t = ys @ dropWhile isWhitespace (rev t)"
      by (metis takeWhile_dropWhile_id)
    then have "t = u @ rev ys"
      unfolding u_def by (metis rev_append rev_rev_ident)
    with Cons have "t \<noteq> []" "hd t = x" by simp_all
    then have "\<not> isWhitespace x"
      unfolding t_def by (metis hd_dropWhile)
    with Cons show ?thesis by simp
  qed
  have "dropWhile isWhitespace (rev u) = rev u"
    unfolding u_def by simp
  with u have "rev (dropWhile isWhitespace (rev (dropWhile isWhitespace u))) = u"
    by simp
  then show ?thesis
    unfolding trim_def u_def t_def .
qed

lemma trim_examples:
  "trim (js ''  '') = []" "trim (js '' '') = []" "trim (js '' al '') = js ''al''" "trim [] = []"
  "trim [0x00A0, 0x2028, 0xFEFF] = []" "trim (js ''x'') = js ''x''"
  by (simp_all add: trim_def isWhitespace_def js_def)

text \<open>
  Claim C5, as stated: for every query that is empty after trimming, \<^verbatim>\<open>searchRepositories\<close>
  fails with a validation error before any network call. It does not: the client's
  \<^verbatim>\<open>searchRepositories\<close> never inspects the query. The command line \<^verbatim>\<open>search " "\<close> passes
  the blank argument to the client, which resolves the username and sends the search,
  and the call succeeds; so does the client called with the empty query.
\<close>

theorem blank_query_counterexample:
  "trim (js '' '') = []
   \<and> cli_search github (Some (js '' '')) [] (fresh (octo trio))
       = Some (Inr (map normalizeRepo trio),
               \<lparr>username = Some ''octo'', remote = octo trio,
                requests = [(GetAuthenticated, True),
                            (SearchRepos (search_defaults (js '' '') ''octo''), True)]\<rparr>)
   \<and> searchRepositories github [] Map.empty (fresh (octo trio))
       = (Inr (map normalizeRepo trio),
          \<lparr>username = Some ''octo'', remote = octo trio,
           requests = [(GetAuthenticated, True),
                       (SearchRepos (search_defaults [] ''octo''), True)]\<rparr>)"
proof -
  have s: "searchRepositories github q Map.empty (fresh (octo trio))
       = (Inr (map normalizeRepo trio),
          \<lparr>username = Some ''octo'', remote = octo trio,
           requests = [(GetAuthenticated, True),
                       (SearchRepos (search_defaults q ''octo''), True)]\<rparr>)"
    if "q = [] \<or> q = js '' ''" for q
    using that
    by (auto simp add: searchRepositories_def github_login)
       (simp_all add: request_def github_def octo_def trio_def hosted_repo_def search_defaults_def
        served_page_def js_def)
  have t: "js '' '' \<noteq> []" by (simp add: js_def)
  show ?thesis
    by (simp add: cli_search_def s t trim_examples)
qed

text \<open>
  Claim C5, amended. In the interactive search command the prompt refuses every entry
  that is empty after trimming, with the message \<^verbatim>\<open>Search query cannot be empty\<close>, and
  asks again: while all entries are blank the command has not called the client, so no
  request is made. As soon as an entry is accepted the command searches with that entry
  trimmed, which is non-empty and has no white space around it.
\<close>

theorem blank_query_refused_by_prompt:
  "(validateQuery input = Inl ''Search query cannot be empty'') = (trim input = [])
   \<and> (validateQuery input = Inr ()) = (trim input \<noteq> [])
   \<and> ((\<forall>entry \<in> set typed. trim entry = []) \<longrightarrow>
         getSearchQuery typed = None \<and> cmd_searchRepositories oct typed c = None)
   \<and> ((\<exists>entry \<in> set typed. trim entry \<noteq> []) \<longrightarrow>
         (\<exists>query. getSearchQuery typed = Some query \<and> query \<noteq> [] \<and> trim query = query
            \<and> query \<in> trim ` set typed
            \<and> cmd_searchRepositories oct typed c = Some (searchRepositories oct query Map.empty c)))"
proof (intro conjI impI)
  show "(validateQuery input = Inl ''Search query cannot be empty'') = (trim input = [])"
    by (rule validateQuery_iff)
  show "(validateQuery input = Inr ()) = (trim input \<noteq> [])"
    by (rule validateQuery_iff)
next
  assume "\<forall>entry \<in> set typed. trim entry = []"
  then show "getSearchQuery typed = None" by (simp add: getSearchQuery_None)
  then show "cmd_searchRepositories oct typed c = None" by (simp add: cmd_searchRepositories_def)
next
  assume "\<exists>entry \<in> set typed. trim entry \<noteq> []"
  then have "getSearchQuery typed \<noteq> None" by (simp add: getSearchQuery_None)
  then obtain query where q: "getSearchQuery typed = Some query" by auto
  from getSearchQuery_Some [OF q] obtain entry where
    e: "entry \<in> set typed" "trim entry \<noteq> []" "query = trim entry" by blast
  from e have "query \<noteq> []" "trim query = query" "query \<in> trim ` set typed"
    by (simp_all add: trim_idem)
  with q show "\<exists>query. getSearchQuery typed = Some query \<and> query \<noteq> [] \<and> trim query = query
            \<and> query \<in> trim ` set typed
            \<and> cmd_searchRepositories oct typed c = Some (searchRepositories oct query Map.empty c)"
    by (simp add: cmd_searchRepositories_def)
qed

theorem blank_query_refused_by_prompt_witness:
  "validateQuery (js ''  '') = Inl ''Search query cannot be empty''
   \<and> validateQuery [0x00A0, 0x2028, 0xFEFF] = Inl ''Search query cannot be empty''
   \<and> validateQuery (js '' al '') = Inr ()
   \<and> cmd_searchRepositories github [[], js ''  '', [0x00A0, 0x2028, 0xFEFF]] (fresh (octo trio))
       = None
   \<and> getSearchQuery [js ''  '', [0x00A0, 0x2028, 0xFEFF], js '' al '', js ''x''] = Some (js ''al'')
   \<and> cmd_searchRepositories github [js ''  '', [0x00A0, 0x2028, 0xFEFF], js '' al '', js ''x'']
         (fresh (octo trio))
       = Some (searchRepositories github (js ''al'') Map.empty (fresh (octo trio)))"
proof -
  let ?blank = "[[], js ''  '', [0x00A0, 0x2028, 0xFEFF]]"
  let ?typed = "[js ''  '', [0x00A0, 0x2028, 0xFEFF], js '' al '', js ''x'']"
  have nonempty: "js ''al'' \<noteq> []" by (simp add: js_def)
  have a: "\<forall>entry \<in> set ?blank. trim entry = []"
    by (simp add: trim_examples)
  have b: "\<exists>entry \<in> set ?typed. trim entry \<noteq> []"
    by (simp add: trim_examples nonempty)
  have g: "getSearchQuery ?typed = Some (js ''al'')"
    by (simp add: validateQuery_def trim_examples nonempty)
  from blank_query_refused_by_prompt [of "js ''  ''" ?blank github "fresh (octo trio)"] a
  have 1: "validateQuery (js ''  '') = Inl ''Search query cannot be empty''"
      "cmd_searchRepositories github ?blank (fresh (octo trio)) = None"
    by (simp_all add: trim_examples)
  from blank_query_refused_by_prompt [of "[0x00A0, 0x2028, 0xFEFF]" ?blank github "fresh (octo trio)"]
  have 3: "validateQuery [0x00A0, 0x2028, 0xFEFF] = Inl ''Search query cannot be empty''"
    by (simp add: trim_examples)
  from blank_query_refused_by_prompt [of "js '' al ''" ?typed github "fresh (octo trio)"] b g
  have 2: "validateQuery (js '' al '') = Inr ()"
      "cmd_searchRepositories github ?typed (fresh (octo trio))
       = Some (searchRepositories github (js ''al'') Map.empty (fresh (octo trio)))"
    by (auto simp add: trim_examples nonempty)
  from 1 2 3 g show ?thesis by simp
qed

subsection \<open>The bulk runners\<close>

lemma forEachTry_log:
  assumes step: "\<And>repo s. requests (snd (body repo s))
                    = requests s @ [(call repo, answered (fst (body repo s)))]"
      and lab: "\<And>repo s item. fst (body repo s) = Inr item \<Longrightarrow> label item = tag repo"
  shows "\<exists>new. requests (snd (forEachTry body repos acc s)) = requests s @ new
           \<and> map fst new = map call repos
           \<and> map label (results (fst (forEachTry body repos acc s)))
               = map label (results acc)
                 @ map (\<lambda>p. tag (fst p)) (filter (\<lambda>p. snd (snd p)) (zip repos new))
           \<and> map err_name (errors (fst (forEachTry body repos acc s)))
               = map err_name (errors acc)
                 @ map (\<lambda>p. name (fst p)) (filter (\<lambda>p. \<not> snd (snd p)) (zip repos new))"
proof (induction repos arbitrary: acc s)
  case Nil
  show ?case by simp
next
  case (Cons repo repos)
  obtain out s' where b: "body repo s = (out, s')" by (cases "body repo s")
  from step [of repo s] b have r: "requests s' = requests s @ [(call repo, answered out)]"
    by simp
  show ?case
  proof (cases out)
    case (Inr item)
    let ?acc = "acc\<lparr>results := results acc @ [item]\<rparr>"
    from lab [of repo s item] b Inr have l: "label item = tag repo" by simp
    from Cons.IH [of ?acc s'] obtain new where
      n: "requests (snd (forEachTry body repos ?acc s')) = requests s' @ new"
         "map fst new = map call repos"
         "map label (results (fst (forEachTry body repos ?acc s')))
            = map label (results ?acc)
              @ map (\<lambda>p. tag (fst p)) (filter (\<lambda>p. snd (snd p)) (zip repos new))"
         "map err_name (errors (fst (forEachTry body repos ?acc s')))
            = map err_name (errors ?acc)
              @ map (\<lambda>p. name (fst p)) (filter (\<lambda>p. \<not> snd (snd p)) (zip repos new))"
      by blast
    have f: "forEachTry body (repo # repos) acc s = forEachTry body repos ?acc s'"
      using b Inr by simp
    show ?thesis
      unfolding f
      by (rule exI [of _ "(call repo, True) # new"]) (use n r l Inr in simp)
  next
    case (Inl e)
    let ?acc = "acc\<lparr>errors := errors acc @ [\<lparr>err_name = name repo, err_error = message e\<rparr>]\<rparr>"
    from Cons.IH [of ?acc s'] obtain new where
      n: "requests (snd (forEachTry body repos ?acc s')) = requests s' @ new"
         "map fst new = map call repos"
         "map label (results (fst (forEachTry body repos ?acc s')))
            = map label (results ?acc)
              @ map (\<lambda>p. tag (fst p)) (filter (\<lambda>p. snd (snd p)) (zip repos new))"
         "map err_name (errors (fst (forEachTry body repos ?acc s')))
            = map err_name (errors ?acc)
              @ map (\<lambda>p. name (fst p)) (filter (\<lambda>p. \<not> snd (snd p)) (zip repos new))"
      by blast
    have f: "forEachTry body (repo # repos) acc s = forEachTry body repos ?acc s'"
      using b Inl by simp
    show ?thesis
      unfolding f
      by (rule exI [of _ "(call repo, False) # new"]) (use n r Inl in simp)
  qed
qed

lemma forEachTry_messages:
  assumes fail: "\<And>repo s e. fst (body repo s) = Inl e \<Longrightarrow> P (message e)"
      and acc: "\<forall>x \<in> set (errors acc). P (err_error x)"
  shows "\<forall>x \<in> set (errors (fst (forEachTry body repos acc s))). P (err_error x)"
  using acc
proof (induction repos arbitrary: acc s)
  case Nil
  then show ?case by simp
next
  case (Cons repo repos)
  obtain out s' where b: "body repo s = (out, s')" by (cases "body repo s")
  show ?case
  proof (cases out)
    case (Inr item)
    from Cons.prems have
      "\<forall>x \<in> set (errors (acc\<lparr>results := results acc @ [item]\<rparr>)). P (err_error x)"
      by simp
    from Cons.IH [OF this] b Inr show ?thesis by simp
  next
    case (Inl e)
    with b fail [of repo s e] have "P (message e)" by simp
    with Cons.prems have
      "\<forall>x \<in> set (errors (acc\<lparr>errors := errors acc @ [\<lparr>err_name = name repo, err_error = message e\<rparr>]\<rparr>)).
         P (err_error x)"
      by simp
    from Cons.IH [OF this] b Inl show ?thesis by simp
  qed
qed


lemma forEachTry_partition:
  assumes step: "\<And>repo s. requests (snd (body repo s))
                    = requests s @ [(call repo, answered (fst (body repo s)))]"
      and lab: "\<And>repo s item. fst (body repo s) = Inr item \<Longrightarrow> label item = tag repo"
      and fail: "\<And>repo s e. fst (body repo s) = Inl e \<Longrightarrow> P (message e)"
  shows "\<exists>new. requests (snd (forEachTry body repos \<lparr>results = [], errors = []\<rparr> s)) = requests s @ new
           \<and> partition_in_order call repos new
                (length (results (fst (forEachTry body repos \<lparr>results = [], errors = []\<rparr> s))))
                (errors (fst (forEachTry body repos \<lparr>results = [], errors = []\<rparr> s)))
           \<and> map label (results (fst (forEachTry body repos \<lparr>results = [], errors = []\<rparr> s)))
               = map (\<lambda>p. tag (fst p)) (filter (\<lambda>p. snd (snd p)) (zip repos new))
           \<and> (\<forall>x \<in> set (errors (fst (forEachTry body repos \<lparr>results = [], errors = []\<rparr> s))).
                 P (err_error x))"
proof -
  let ?out = "fst (forEachTry body repos \<lparr>results = [], errors = []\<rparr> s)"
  have "\<exists>new. requests (snd (forEachTry body repos \<lparr>results = [], errors = []\<rparr> s)) = requests s @ new
           \<and> map fst new = map call repos
           \<and> map label (results ?out)
               = map (\<lambda>p. tag (fst p)) (filter (\<lambda>p. snd (snd p)) (zip repos new))
           \<and> map err_name (errors ?out)
               = map (\<lambda>p. name (fst p)) (filter (\<lambda>p. \<not> snd (snd p)) (zip repos new))"
    using forEachTry_log [where body = body and call = call and label = label and tag = tag
            and repos = repos and s = s and acc = "\<lparr>results = [], errors = []\<rparr>",
            OF step lab]
    by simp
  then obtain new where
    n: "requests (snd (forEachTry body repos \<lparr>results = [], errors = []\<rparr> s)) = requests s @ new"
       "map fst new = map call repos"
       "map label (results ?out) = map (\<lambda>p. tag (fst p)) (filter (\<lambda>p. snd (snd p)) (zip repos new))"
       "map err_name (errors ?out)
          = map (\<lambda>p. name (fst p)) (filter (\<lambda>p. \<not> snd (snd p)) (zip repos new))"
    by auto
  from n(2) have len: "length new = length repos"
    by (metis length_map)
  from n(3) have a: "length (results ?out) = length (filter (\<lambda>p. snd (snd p)) (zip repos new))"
    by (metis length_map)
  from n(4) have b: "length (errors ?out) = length (filter (\<lambda>p. \<not> snd (snd p)) (zip repos new))"
    by (metis length_map)
  have "length (filter (\<lambda>p. snd (snd p)) (zip repos new))
          + length (filter (\<lambda>p. \<not> snd (snd p)) (zip repos new)) = length (zip repos new)"
    by (rule sum_length_filter_compl)
  with a b len have total: "length (results ?out) + length (errors ?out) = length repos"
    by simp
  have p: "partition_in_order call repos new (length (results ?out)) (errors ?out)"
    using n(2) n(4) a total by (simp add: partition_in_order_def answered_names_def rejected_names_def)
  have m: "\<forall>x \<in> set (errors ?out). P (err_error x)"
    by (rule forEachTry_messages [where body = body and P = P, OF fail]) simp_all
  from n(1) n(3) p m show ?thesis by blast
qed

lemma pushed_fst:
  "answered (fst (pushed item r)) = answered (fst r)"
  "(fst (pushed item r) = Inl e) = (fst r = Inl e)"
  "fst (pushed item r) = Inr x \<Longrightarrow> \<exists>y. fst r = Inr y \<and> x = item y"
  by (cases r; cases "fst r"; auto)+

lemma single_item_requests:
  "requests (snd (deleteRepository oct owner rname c))
     = requests c @ [(ReposDelete owner rname, answered (fst (deleteRepository oct owner rname c)))]"
  "requests (snd (updateRepositoryVisibility oct owner rname b c))
     = requests c @ [(ReposUpdate owner rname [''private'' \<mapsto> B b],
                      answered (fst (updateRepositoryVisibility oct owner rname b c)))]"
  "requests (snd (archiveRepository oct owner rname c))
     = requests c @ [(ReposUpdate owner rname [''archived'' \<mapsto> B True],
                      answered (fst (archiveRepository oct owner rname c)))]"
  "requests (snd (unarchiveRepository oct owner rname c))
     = requests c @ [(ReposUpdate owner rname [''archived'' \<mapsto> B False],
                      answered (fst (unarchiveRepository oct owner rname c)))]"
  by (auto simp: deleteRepository_def updateRepositoryVisibility_def archiveRepository_def
        unarchiveRepository_def request_def split: prod.splits sum.splits)

lemma single_item_messages:
  "fst (deleteRepository oct owner rname c) = Inl e
     \<Longrightarrow> \<exists>m. message e = ''Failed to delete repository: '' @ m"
  "fst (updateRepositoryVisibility oct owner rname b c) = Inl e
     \<Longrightarrow> \<exists>m. message e = ''Failed to update repository visibility: '' @ m"
  "fst (archiveRepository oct owner rname c) = Inl e
     \<Longrightarrow> \<exists>m. message e = ''Failed to archive repository: '' @ m"
  "fst (unarchiveRepository oct owner rname c) = Inl e
     \<Longrightarrow> \<exists>m. message e = ''Failed to unarchive repository: '' @ m"
  by (auto simp: deleteRepository_def updateRepositoryVisibility_def archiveRepository_def
        unarchiveRepository_def request_def split: prod.splits sum.splits)

lemma bulkDelete_partition:
  "\<exists>new. requests (snd (bulkDeleteRepositories oct owner repos c)) = requests c @ new
     \<and> partition_in_order (\<lambda>repo. ReposDelete owner (name repo)) repos new
          (length (results (fst (bulkDeleteRepositories oct owner repos c))))
          (errors (fst (bulkDeleteRepositories oct owner repos c)))
     \<and> map deleted_name (results (fst (bulkDeleteRepositories oct owner repos c)))
         = answered_names repos new
     \<and> (\<forall>x \<in> set (errors (fst (bulkDeleteRepositories oct owner repos c))).
           \<exists>m. err_error x = ''Failed to delete repository: '' @ m)"
  unfolding bulkDeleteRepositories_def answered_names_def
  by (rule forEachTry_partition [where label = deleted_name and tag = name])
     (auto simp: pushed_snd pushed_fst single_item_requests dest: pushed_fst(3) single_item_messages)

lemma bulkUpdateVisibility_partition:
  "\<exists>new. requests (snd (bulkUpdateVisibility oct owner repos b c)) = requests c @ new
     \<and> partition_in_order (\<lambda>repo. ReposUpdate owner (name repo) [''private'' \<mapsto> B b]) repos new
          (length (results (fst (bulkUpdateVisibility oct owner repos b c))))
          (errors (fst (bulkUpdateVisibility oct owner repos b c)))
     \<and> (\<forall>x \<in> set (errors (fst (bulkUpdateVisibility oct owner repos b c))).
           \<exists>m. err_error x = ''Failed to update repository visibility: '' @ m)"
proof -
  let ?body = "\<lambda>repo s. pushed (\<lambda>r. \<lparr>result = r, success = True\<rparr>)
                    (updateRepositoryVisibility oct owner (name repo) b s)"
  have "\<exists>new. requests (snd (forEachTry ?body repos \<lparr>results = [], errors = []\<rparr> c)) = requests c @ new
           \<and> partition_in_order (\<lambda>repo. ReposUpdate owner (name repo) [''private'' \<mapsto> B b]) repos new
                (length (results (fst (forEachTry ?body repos \<lparr>results = [], errors = []\<rparr> c))))
                (errors (fst (forEachTry ?body repos \<lparr>results = [], errors = []\<rparr> c)))
           \<and> map (\<lambda>_. ()) (results (fst (forEachTry ?body repos \<lparr>results = [], errors = []\<rparr> c)))
               = map (\<lambda>p. (\<lambda>_. ()) (fst p)) (filter (\<lambda>p. snd (snd p)) (zip repos new))
           \<and> (\<forall>x \<in> set (errors (fst (forEachTry ?body repos \<lparr>results = [], errors = []\<rparr> c))).
                 \<exists>m. err_error x = ''Failed to update repository visibility: '' @ m)"
    by (rule forEachTry_partition [where label = "\<lambda>_. ()" and tag = "\<lambda>_. ()"])
       (auto simp: pushed_snd pushed_fst single_item_requests dest: single_item_messages)
  then show ?thesis unfolding bulkUpdateVisibility_def by blast
qed

lemma bulkArchive_partition:
  "\<exists>new. requests (snd (bulkArchiveRepositories oct owner repos c)) = requests c @ new
     \<and> partition_in_order (\<lambda>repo. ReposUpdate owner (name repo) [''archived'' \<mapsto> B True]) repos new
          (length (results (fst (bulkArchiveRepositories oct owner repos c))))
          (errors (fst (bulkArchiveRepositories oct owner repos c)))
     \<and> (\<forall>x \<in> set (errors (fst (bulkArchiveRepositories oct owner repos c))).
           \<exists>m. err_error x = ''Failed to archive repository: '' @ m)"
proof -
  let ?body = "\<lambda>repo s. pushed (\<lambda>r. \<lparr>result = r, success = True\<rparr>)
                    (archiveRepository oct owner (name repo) s)"
  have "\<exists>new. requests (snd (forEachTry ?body repos \<lparr>results = [], errors = []\<rparr> c)) = requests c @ new
           \<and> partition_in_order (\<lambda>repo. ReposUpdate owner (name repo) [''archived'' \<mapsto> B True]) repos new
                (length (results (fst (forEachTry ?body repos \<lparr>results = [], errors = []\<rparr> c))))
                (errors (fst (forEachTry ?body repos \<lparr>results = [], errors = []\<rparr> c)))
           \<and> map (\<lambda>_. ()) (results (fst (forEachTry ?body repos \<lparr>results = [], errors = []\<rparr> c)))
               = map (\<lambda>p. (\<lambda>_. ()) (fst p)) (filter (\<lambda>p. snd (snd p)) (zip repos new))
           \<and> (\<forall>x \<in> set (errors (fst (forEachTry ?body repos \<lparr>results = [], errors = []\<rparr> c))).
                 \<exists>m. err_error x = ''Failed to archive repository: '' @ m)"
    by (rule forEachTry_partition [where label = "\<lambda>_. ()" and tag = "\<lambda>_. ()"])
       (auto simp: pushed_snd pushed_fst single_item_requests dest: single_item_messages)
  then show ?thesis unfolding bulkArchiveRepositories_def by blast
qed

lemma bulkUnarchive_partition:
  "\<exists>new. requests (snd (bulkUnarchiveRepositories oct owner repos c)) = requests c @ new
     \<and> partition_in_order (\<lambda>repo. ReposUpdate owner (name repo) [''archived'' \<mapsto> B False]) repos new
          (length (results (fst (bulkUnarchiveRepositories oct owner repos c))))
          (errors (fst (bulkUnarchiveRepositories oct owner repos c)))
     \<and> (\<forall>x \<in> set (errors (fst (bulkUnarchiveRepositories oct owner repos c))).
           \<exists>m. err_error x = ''Failed to unarchive repository: '' @ m)"
proof -
  let ?body = "\<lambda>repo s. pushed (\<lambda>r. \<lparr>result = r, success = True\<rparr>)
                    (unarchiveRepository oct owner (name repo) s)"
  have "\<exists>new. requests (snd (forEachTry ?body repos \<lparr>results = [], errors = []\<rparr> c)) = requests c @ new
           \<and> partition_in_order (\<lambda>repo. ReposUpdate owner (name repo) [''archived'' \<mapsto> B False]) repos new
                (length (results (fst (forEachTry ?body repos \<lparr>results = [], errors = []\<rparr> c))))
                (errors (fst (forEachTry ?body repos \<lparr>results = [], errors = []\<rparr> c)))
           \<and> map (\<lambda>_. ()) (results (fst (forEachTry ?body repos \<lparr>results = [], errors = []\<rparr> c)))
               = map (\<lambda>p. (\<lambda>_. ()) (fst p)) (filter (\<lambda>p. snd (snd p)) (zip repos new))
           \<and> (\<forall>x \<in> set (errors (fst (forEachTry ?body repos \<lparr>results = [], errors = []\<rparr> c))).
                 \<exists>m. err_error x = ''Failed to unarchive repository: '' @ m)"
    by (rule forEachTry_partition [where label = "\<lambda>_. ()" and tag = "\<lambda>_. ()"])
       (auto simp: pushed_snd pushed_fst single_item_requests dest: single_item_messages)
  then show ?thesis unfolding bulkUnarchiveRepositories_def by blast
qed

lemma bulk_delete_example:
  "bulkDeleteRepositories github ''octo'' targets (fresh (octo trio))
     = (\<lparr>results = [\<lparr>deleted_name = ''alpha'', deleted_success = True\<rparr>,
                    \<lparr>deleted_name = ''gamma'', deleted_success = True\<rparr>],
         errors = [\<lparr>err_name = ''ghost'', err_error = ''Failed to delete repository: Not Found''\<rparr>]\<rparr>,
        \<lparr>username = None, remote = octo [hosted_repo 101 ''beta'' True (Some True)],
         requests = [(ReposDelete ''octo'' ''alpha'', True),
                     (ReposDelete ''octo'' ''ghost'', False),
                     (ReposDelete ''octo'' ''gamma'', True)]\<rparr>)"
  by (simp add: bulkDeleteRepositories_def targets_def normalizeRepo_def hosted_repo_def
        deleteRepository_def request_def github_def hosts_def fresh_def octo_def trio_def)

text \<open>
  Claim C2. For every list of N targets and every per-item operation (delete,
  visibility update, archive, unarchive), the bulk runner issues exactly one request per
  target, in input order, whether or not earlier ones failed; it produces exactly N
  outcomes, the successes being as many as the answered requests and the failures being
  exactly the targets whose request was rejected, in input order (so nothing is lost or
  duplicated); each failure carries the target's name and the message of the error,
  which starts with the operation's own text; and for delete each success carries the
  target's name.
\<close>

theorem bulk_runner_partition:
  "(\<exists>new. requests (snd (bulkDeleteRepositories oct owner repos c)) = requests c @ new
      \<and> partition_in_order (\<lambda>repo. ReposDelete owner (name repo)) repos new
           (length (results (fst (bulkDeleteRepositories oct owner repos c))))
           (errors (fst (bulkDeleteRepositories oct owner repos c)))
      \<and> map deleted_name (results (fst (bulkDeleteRepositories oct owner repos c)))
          = answered_names repos new
      \<and> (\<forall>x \<in> set (errors (fst (bulkDeleteRepositories oct owner repos c))).
            \<exists>m. err_error x = ''Failed to delete repository: '' @ m))
   \<and> (\<exists>new. requests (snd (bulkUpdateVisibility oct owner repos makePrivate c)) = requests c @ new
      \<and> partition_in_order
           (\<lambda>repo. ReposUpdate owner (name repo) [''private'' \<mapsto> B makePrivate]) repos new
           (length (results (fst (bulkUpdateVisibility oct owner repos makePrivate c))))
           (errors (fst (bulkUpdateVisibility oct owner repos makePrivate c)))
      \<and> (\<forall>x \<in> set (errors (fst (bulkUpdateVisibility oct owner repos makePrivate c))).
            \<exists>m. err_error x = ''Failed to update repository visibility: '' @ m))
   \<and> (\<exists>new. requests (snd (bulkArchiveRepositories oct owner repos c)) = requests c @ new
      \<and> partition_in_order
           (\<lambda>repo. ReposUpdate owner (name repo) [''archived'' \<mapsto> B True]) repos new
           (length (results (fst (bulkArchiveRepositories oct owner repos c))))
           (errors (fst (bulkArchiveRepositories oct owner repos c)))
      \<and> (\<forall>x \<in> set (errors (fst (bulkArchiveRepositories oct owner repos c))).
            \<exists>m. err_error x = ''Failed to archive repository: '' @ m))
   \<and> (\<exists>new. requests (snd (bulkUnarchiveRepositories oct owner repos c)) = requests c @ new
      \<and> partition_in_order
           (\<lambda>repo. ReposUpdate owner (name repo) [''archived'' \<mapsto> B False]) repos new
           (length (results (fst (bulkUnarchiveRepositories oct owner repos c))))
           (errors (fst (bulkUnarchiveRepositories oct owner repos c)))
      \<and> (\<forall>x \<in> set (errors (fst (bulkUnarchiveRepositories oct owner repos c))).
            \<exists>m. err_error x = ''Failed to unarchive repository: '' @ m))"
  using bulkDelete_partition [of oct owner repos c]
        bulkUpdateVisibility_partition [of oct owner repos makePrivate c]
        bulkArchive_partition [of oct owner repos c]
        bulkUnarchive_partition [of oct owner repos c]
  by (intro conjI)

theorem bulk_runner_partition_witness:
  "bulkDeleteRepositories github ''octo'' targets (fresh (octo trio))
     = (\<lparr>results = [\<lparr>deleted_name = ''alpha'', deleted_success = True\<rparr>,
                    \<lparr>deleted_name = ''gamma'', deleted_success = True\<rparr>],
         errors = [\<lparr>err_name = ''ghost'', err_error = ''Failed to delete repository: Not Found''\<rparr>]\<rparr>,
        \<lparr>username = None, remote = octo [hosted_repo 101 ''beta'' True (Some True)],
         requests = [(ReposDelete ''octo'' ''alpha'', True),
                     (ReposDelete ''octo'' ''ghost'', False),
                     (ReposDelete ''octo'' ''gamma'', True)]\<rparr>)
   \<and> partition_in_order (\<lambda>repo. ReposDelete ''octo'' (name repo)) targets
        [(ReposDelete ''octo'' ''alpha'', True),
         (ReposDelete ''octo'' ''ghost'', False),
         (ReposDelete ''octo'' ''gamma'', True)]
        2
        [\<lparr>err_name = ''ghost'', err_error = ''Failed to delete repository: Not Found''\<rparr>]
   \<and> answered_names targets
        [(ReposDelete ''octo'' ''alpha'', True),
         (ReposDelete ''octo'' ''ghost'', False),
         (ReposDelete ''octo'' ''gamma'', True)] = [''alpha'', ''gamma'']"
proof -
  note e = bulk_delete_example
  from bulk_runner_partition [of github "''octo''" targets "fresh (octo trio)"]
  obtain new where
    n: "requests (snd (bulkDeleteRepositories github ''octo'' targets (fresh (octo trio))))
          = requests (fresh (octo trio)) @ new"
       "partition_in_order (\<lambda>repo. ReposDelete ''octo'' (name repo)) targets new
           (length (results (fst (bulkDeleteRepositories github ''octo'' targets (fresh (octo trio))))))
           (errors (fst (bulkDeleteRepositories github ''octo'' targets (fresh (octo trio)))))"
       "map deleted_name (results (fst (bulkDeleteRepositories github ''octo'' targets (fresh (octo trio)))))
          = answered_names targets new"
    by blast
  have r0: "requests (fresh (octo trio)) = []" by (simp add: fresh_def)
  from n(1) have "new = [(ReposDelete ''octo'' ''alpha'', True),
                         (ReposDelete ''octo'' ''ghost'', False),
                         (ReposDelete ''octo'' ''gamma'', True)]"
    by (simp add: e r0)
  with n(2) n(3) e show ?thesis by (simp add: numeral_2_eq_2)
qed

subsection \<open>The bulk-delete command\<close>

lemma listRepositories_state:
  "\<exists>ok. snd (listRepositories oct options c)
          = c\<lparr>remote := snd (repos_listForAuthenticatedUser oct (list_defaults ++ options) (remote c)),
              requests := requests c @ [(ListForAuthenticatedUser (list_defaults ++ options), ok)]\<rparr>"
  by (auto simp: listRepositories_def request_def Let_def split: prod.splits sum.splits)

text \<open>
  Claim C3. In the bulk-delete command a decline at either confirmation is terminal and
  performs no remote mutation: unless both confirmations are affirmative the command
  ends in the state the initial listing left, the only request it issued is that
  listing, no delete request is among its requests, and it reports no bulk results.
\<close>

theorem bulk_delete_decline_is_terminal:
  assumes "\<not> confirm answers \<or> \<not> finalConfirm answers"
  shows "snd (cmd_bulkDeleteRepositories oct answers c) = snd (listRepositories oct Map.empty c)
       \<and> (\<exists>ok. requests (snd (cmd_bulkDeleteRepositories oct answers c))
                 = requests c @ [(ListForAuthenticatedUser list_defaults, ok)])
       \<and> (\<forall>owner rname ok. (ReposDelete owner rname, ok)
                 \<notin> set (drop (length (requests c)) (requests (snd (cmd_bulkDeleteRepositories oct answers c)))))
       \<and> (\<forall>res. fst (cmd_bulkDeleteRepositories oct answers c) \<noteq> ShownBulkResults res)"
proof -
  have s: "snd (cmd_bulkDeleteRepositories oct answers c) = snd (listRepositories oct Map.empty c)"
    using assms
    by (auto simp: cmd_bulkDeleteRepositories_def split: prod.splits sum.splits)
  have n: "fst (cmd_bulkDeleteRepositories oct answers c) \<noteq> ShownBulkResults res" for res
    using assms
    by (auto simp: cmd_bulkDeleteRepositories_def split: prod.splits sum.splits)
  from listRepositories_state [of oct Map.empty c] obtain ok where
    "requests (snd (listRepositories oct Map.empty c))
       = requests c @ [(ListForAuthenticatedUser list_defaults, ok)]"
    by auto
  with s n show ?thesis by auto
qed

theorem bulk_delete_decline_is_terminal_witness:
  "cmd_bulkDeleteRepositories github
      \<lparr>picked = [''alpha'', ''beta''], confirm = True, finalConfirm = False\<rparr>
      (fresh (octo (filler @ trio)))
     = (ShownInfo ''Bulk deletion cancelled at final confirmation.'',
        \<lparr>username = None, remote = octo (filler @ trio),
         requests = [(ListForAuthenticatedUser list_defaults, True)]\<rparr>)
   \<and> cmd_bulkDeleteRepositories github
      \<lparr>picked = [''select-all''], confirm = False, finalConfirm = True\<rparr>
      (fresh (octo (filler @ trio)))
     = (ShownInfo ''Bulk deletion cancelled.'',
        \<lparr>username = None, remote = octo (filler @ trio),
         requests = [(ListForAuthenticatedUser list_defaults, True)]\<rparr>)"
proof -
  let ?a = "\<lparr>picked = [''alpha'', ''beta''], confirm = True, finalConfirm = False\<rparr>"
  let ?b = "\<lparr>picked = [''select-all''], confirm = False, finalConfirm = True\<rparr>"
  have l: "length trio \<le> 100" by (simp add: trio_def)
  note page = github_second_page [OF l]
  have a: "\<not> confirm ?a \<or> \<not> finalConfirm ?a" by simp
  have b: "\<not> confirm ?b \<or> \<not> finalConfirm ?b" by simp
  have sa: "snd (cmd_bulkDeleteRepositories github ?a (fresh (octo (filler @ trio))))
              = \<lparr>username = None, remote = octo (filler @ trio),
                 requests = [(ListForAuthenticatedUser list_defaults, True)]\<rparr>"
    using bulk_delete_decline_is_terminal [OF a, of github "fresh (octo (filler @ trio))"]
    by (simp add: page)
  have sb: "snd (cmd_bulkDeleteRepositories github ?b (fresh (octo (filler @ trio))))
              = \<lparr>username = None, remote = octo (filler @ trio),
                 requests = [(ListForAuthenticatedUser list_defaults, True)]\<rparr>"
    using bulk_delete_decline_is_terminal [OF b, of github "fresh (octo (filler @ trio))"]
    by (simp add: page)
  have fa: "fst (cmd_bulkDeleteRepositories github ?a (fresh (octo (filler @ trio))))
              = ShownInfo ''Bulk deletion cancelled at final confirmation.''"
    by (simp add: cmd_bulkDeleteRepositories_def page)
       (simp add: selectMultipleRepositories_def trio_def normalizeRepo_def hosted_repo_def)
  have fb: "fst (cmd_bulkDeleteRepositories github ?b (fresh (octo (filler @ trio))))
              = ShownInfo ''Bulk deletion cancelled.''"
    by (simp add: cmd_bulkDeleteRepositories_def page)
       (simp add: selectMultipleRepositories_def trio_def)
  from sa fa sb fb show ?thesis by (simp add: prod_eq_iff)
qed

end
